theory Spec2Isabelle
  imports Main
begin

section \<open>Values, documents and stores\<close>

text \<open>
  The repository is an Express service over two Mongoose models, kept in two variants:
  one stores uploaded files at Cloudinary, the other on the local disk. Each route
  handler becomes a function from the decoded caller claims, the request data and the
  state of the stores to an outcome and the new state.

  The document store is the external collaborator it is in the source: a collection is
  a list of documents, \<open>findById\<close> returns the document with the given id, \<open>save\<close>
  runs the validators that the schema of \<open>models/Paper.js\<close> declares and then writes
  the document back. An ObjectId is kept as the 24 lower-case hexadecimal digits that
  \<open>toString\<close> and JSON give it; a string that reaches a query or a constructor in the
  place of an ObjectId is cast first, and the cast can fail. A JavaScript string is a
  \<open>string\<close>, one \<open>char\<close> for each code unit that \<open>maxlength\<close> counts; a value that
  may be \<open>undefined\<close> is an \<open>option\<close>.

  The state a handler is given is the state at its entry: the middleware before it has
  run, so multer has already stored the files of the request.
\<close>

type_synonym oid = string

text \<open>The exceptions a handler can meet: a rejected \<open>save\<close>, a query whose id does
  not cast to an ObjectId, a property read on \<open>undefined\<close>, bcrypt called without a
  password, and a failed call to Cloudinary.\<close>

datatype error = ValidationError | CastError | TypeError | IllegalArguments | UpstreamFailure

text \<open>The payload of a token: \<open>{_id, isAdmin}\<close> or \<open>{_id, username}\<close>.\<close>

record claims =
  claim_id :: string
  isAdmin :: "bool option"
  claim_username :: "string option"

text \<open>Signing is opaque: a token is its payload together with the key that signed it.\<close>

datatype token = Signed string claims

record user =
  user_id :: oid
  username :: string
  password :: string

text \<open>\<open>fileSchema\<close> of the Cloudinary variant and of the local-disk variant.\<close>

record cloud_file =
  cf_id :: oid
  url :: string
  public_id :: string
  cf_originalName :: string

record disk_file =
  df_id :: oid
  path :: string
  df_originalName :: string
  df_createdAt :: nat

text \<open>\<open>paperSchema\<close>; the field \<open>note\<close> is \<open>p_note\<close> here.\<close>

record 'f paper =
  paper_id :: oid
  moderatorId :: "oid option"
  title :: "string option"
  p_note :: "string option"
  files :: "'f list"
  createdAt :: nat
  updatedAt :: nat

text \<open>A file as multer hands it to the handler in \<open>req.files\<close>.\<close>

record upload =
  up_path :: string
  up_filename :: string
  originalname :: string

text \<open>The text fields of the multipart body of \<open>POST /api/papers\<close>.\<close>

record paper_body =
  b_moderatorId :: "oid option"
  b_title :: "string option"
  b_note :: "string option"

text \<open>The process environment and the bcrypt capability.\<close>

record env =
  JWT_SECRET :: "string option"
  ADMIN_PASSWORD :: "string option"
  bcrypt_hash :: "string \<Rightarrow> string"
  bcrypt_compare :: "string \<Rightarrow> string \<Rightarrow> bool"

text \<open>
  The stores. \<open>clock\<close> is what \<open>Date.now()\<close> returns while the handler runs.
  \<open>assets\<close> are the public ids Cloudinary holds, \<open>failing\<close> the public ids for which
  a \<open>destroy\<close> request is rejected (the network or the service failing); the
  local-disk variant never touches either.
\<close>

record 'f db =
  users :: "user list"
  papers :: "'f paper list"
  clock :: nat
  assets :: "string list"
  failing :: "string list"

datatype 'f body =
    Text string
  | Message string
  | TokenOnly token
  | TokenUser token string
  | Username string
  | UserList "(oid \<times> string) list"
  | PaperDoc "'f paper"
  | PaperList "'f paper list"

text \<open>A handler either sends a response or its promise is rejected with no response
  sent by the handler.\<close>

datatype 'f outcome = Response nat "'f body" | Uncaught error

section \<open>Tokens and the guard\<close>

definition secret :: "env \<Rightarrow> string" where
  "secret e = (case JWT_SECRET e of
                 None \<Rightarrow> ''your-secret-key''
               | Some s \<Rightarrow> if s = [] then ''your-secret-key'' else s)"

definition jwt_sign :: "claims \<Rightarrow> string \<Rightarrow> token" where
  "jwt_sign c k = Signed k c"

fun jwt_verify :: "token \<Rightarrow> string \<Rightarrow> claims option" where
  "jwt_verify (Signed k c) k' = (if k = k' then Some c else None)"

text \<open>\<open>authenticate\<close>: 401 without a token, 400 for a token that does not verify,
  otherwise the handler runs with \<open>req.user\<close> set to the decoded claims.\<close>

definition authenticate ::
  "env \<Rightarrow> token option \<Rightarrow> (claims \<Rightarrow> 's \<Rightarrow> 'f outcome \<times> 's) \<Rightarrow> 's \<Rightarrow> 'f outcome \<times> 's" where
  "authenticate e tok next st =
     (case tok of
        None \<Rightarrow> (Response 401 (Text ''Access denied. No token provided.''), st)
      | Some t \<Rightarrow>
          (case jwt_verify t (secret e) of
             None \<Rightarrow> (Response 400 (Text ''Invalid token.''), st)
           | Some decoded \<Rightarrow> next decoded st))"

text \<open>The truth value of \<open>req.user.isAdmin\<close>.\<close>

definition truthy :: "bool option \<Rightarrow> bool" where
  "truthy b = (b = Some True)"

definition access_denied :: "'f outcome" where
  "access_denied = Response 403 (Text ''Access denied.'')"

section \<open>Logins\<close>

definition admin_login :: "env \<Rightarrow> string option \<Rightarrow> string option \<Rightarrow> 'f outcome" where
  "admin_login e uname pw =
     (if uname \<noteq> Some ''admin'' \<or> pw \<noteq> ADMIN_PASSWORD e
      then Response 400 (Text ''Invalid credentials'')
      else Response 200 (TokenOnly (jwt_sign
             \<lparr>claim_id = ''admin'', isAdmin = Some True, claim_username = None\<rparr> (secret e))))"

definition moderator_login ::
  "env \<Rightarrow> string option \<Rightarrow> string option \<Rightarrow> ('f, 'z) db_scheme \<Rightarrow> 'f outcome" where
  "moderator_login e uname pw st =
     (case find (\<lambda>u. Some (username u) = uname) (users st) of
        None \<Rightarrow> Response 400 (Text ''Invalid username or password.'')
      | Some moderator \<Rightarrow>
          (case pw of
             None \<Rightarrow> Uncaught IllegalArguments
           | Some p \<Rightarrow>
               if \<not> bcrypt_compare e p (password moderator)
               then Response 400 (Text ''Invalid username or password.'')
               else Response 200 (TokenUser
                      (jwt_sign \<lparr>claim_id = user_id moderator, isAdmin = None,
                                 claim_username = Some (username moderator)\<rparr> (secret e))
                      (username moderator))))"

section \<open>ObjectIds\<close>

text \<open>
  The cast Mongoose applies to a string where the schema or the query expects an
  ObjectId, as in the Mongoose 5 that the connection options and \<open>file.remove()\<close> of
  the source belong to: 24 hexadecimal digits in either case, or any 12 characters, which
  are taken as the 12 bytes of the id. Every other string is refused. The result is
  written as \<open>toString\<close> writes it, in lower-case hexadecimal digits.
\<close>

definition isHexDigit :: "char \<Rightarrow> bool" where
  "isHexDigit c = (c \<in> set ''0123456789abcdefABCDEF'')"

definition toLowerHex :: "char \<Rightarrow> char" where
  "toLowerHex c =
     (if c = CHR ''A'' then CHR ''a'' else if c = CHR ''B'' then CHR ''b''
      else if c = CHR ''C'' then CHR ''c'' else if c = CHR ''D'' then CHR ''d''
      else if c = CHR ''E'' then CHR ''e'' else if c = CHR ''F'' then CHR ''f'' else c)"

definition hexByte :: "char \<Rightarrow> string" where
  "hexByte c = [''0123456789abcdef'' ! (of_char c div 16), ''0123456789abcdef'' ! (of_char c mod 16)]"

definition castObjectId :: "string \<Rightarrow> oid option" where
  "castObjectId s =
     (if length s = 24 \<and> list_all isHexDigit s then Some (map toLowerHex s)
      else if length s = 12 then Some (concat (map hexByte s))
      else None)"

section \<open>Moderator routes\<close>

text \<open>Modelled from the spec: \<open>models/User.js\<close> is not among the sources. An
  Identity has an id, a required username and a required password hash, which are the
  fields the handlers read and write (\<open>_id\<close>, \<open>username\<close>, \<open>password\<close>); saving
  a user without a username is rejected.\<close>

definition create_moderator ::
  "env \<Rightarrow> oid \<Rightarrow> claims \<Rightarrow> string option \<Rightarrow> string option \<Rightarrow> ('f, 'z) db_scheme
     \<Rightarrow> 'f outcome \<times> ('f, 'z) db_scheme" where
  "create_moderator e newId u uname pw st =
     (if \<not> truthy (isAdmin u) then (access_denied, st)
      else case find (\<lambda>x. Some (username x) = uname) (users st) of
        Some _ \<Rightarrow> (Response 400 (Text ''Moderator already registered.''), st)
      | None \<Rightarrow>
          (case pw of
             None \<Rightarrow> (Uncaught IllegalArguments, st)
           | Some p \<Rightarrow>
               (case uname of
                  None \<Rightarrow> (Uncaught ValidationError, st)
                | Some n \<Rightarrow>
                    (Response 200 (Username n),
                     st\<lparr>users := users st @
                          [\<lparr>user_id = newId, username = n, password = bcrypt_hash e p\<rparr>]\<rparr>))))"

definition list_moderators ::
  "claims \<Rightarrow> ('f, 'z) db_scheme \<Rightarrow> 'f outcome \<times> ('f, 'z) db_scheme" where
  "list_moderators u st =
     (if \<not> truthy (isAdmin u) then (access_denied, st)
      else (Response 200 (UserList (map (\<lambda>x. (user_id x, username x)) (users st))), st))"

text \<open>\<open>DELETE /api/moderators/:id\<close>: \<open>User.findByIdAndDelete\<close>, then
  \<open>Paper.deleteMany\<close> by \<open>moderatorId\<close>; both cast the id, and nothing catches the
  first one failing.\<close>

definition delete_moderator ::
  "claims \<Rightarrow> string \<Rightarrow> ('f, 'z) db_scheme \<Rightarrow> 'f outcome \<times> ('f, 'z) db_scheme" where
  "delete_moderator u mid st =
     (if \<not> truthy (isAdmin u) then (access_denied, st)
      else case castObjectId mid of
        None \<Rightarrow> (Uncaught CastError, st)
      | Some m \<Rightarrow>
          (case find (\<lambda>x. user_id x = m) (users st) of
             None \<Rightarrow> (Response 404 (Text ''Moderator not found.''), st)
           | Some _ \<Rightarrow>
               (Response 200 (Message ''Moderator deleted successfully''),
                st\<lparr>users := filter (\<lambda>x. user_id x \<noteq> m) (users st),
                    papers := filter (\<lambda>p. moderatorId p \<noteq> Some m) (papers st)\<rparr>)))"

section \<open>The Paper model\<close>

text \<open>\<open>Paper.findById\<close> and \<open>Paper.find({ moderatorId })\<close>: the query casts the
  string it is given and is rejected with a CastError when the cast fails.\<close>

definition findById :: "string \<Rightarrow> 'f paper list \<Rightarrow> error + 'f paper option" where
  "findById i ps =
     (case castObjectId i of
        None \<Rightarrow> Inl CastError
      | Some c \<Rightarrow> Inr (find (\<lambda>p. paper_id p = c) ps))"

definition find_by_moderator :: "string \<Rightarrow> 'f paper list \<Rightarrow> error + 'f paper list" where
  "find_by_moderator m ps =
     (case castObjectId m of
        None \<Rightarrow> Inl CastError
      | Some c \<Rightarrow> Inr (filter (\<lambda>p. moderatorId p = Some c) ps))"

text \<open>The validators of the schema: \<open>required\<close> rejects a missing value and, for a
  string, the empty string; \<open>maxlength\<close> bounds the length of a string that is there.
  \<open>moderatorId\<close> holds the ObjectId that the constructor cast the given value to; a
  value that does not cast leaves the path without one (see \<open>new_paper\<close>), so that
  \<open>save\<close> rejects a missing and an uncastable \<open>moderatorId\<close> alike.\<close>

definition required_string :: "string option \<Rightarrow> bool" where
  "required_string v = (case v of None \<Rightarrow> False | Some s \<Rightarrow> s \<noteq> [])"

definition maxlength :: "nat \<Rightarrow> string option \<Rightarrow> bool" where
  "maxlength n v = (case v of None \<Rightarrow> True | Some s \<Rightarrow> length s \<le> n)"

definition valid_cloud_file :: "cloud_file \<Rightarrow> bool" where
  "valid_cloud_file f = (url f \<noteq> [] \<and> public_id f \<noteq> [] \<and> cf_originalName f \<noteq> [])"

definition valid_disk_file :: "disk_file \<Rightarrow> bool" where
  "valid_disk_file f = (path f \<noteq> [] \<and> df_originalName f \<noteq> [])"

definition valid_paper :: "('f \<Rightarrow> bool) \<Rightarrow> 'f paper \<Rightarrow> bool" where
  "valid_paper vf p =
     (moderatorId p \<noteq> None \<and>
      required_string (title p) \<and> maxlength 100 (title p) \<and>
      required_string (p_note p) \<and> maxlength 500 (p_note p) \<and>
      list_all vf (files p))"

text \<open>\<open>paper.save()\<close> for a new document and for one read from the collection.\<close>

definition save_new ::
  "('f \<Rightarrow> bool) \<Rightarrow> 'f paper \<Rightarrow> ('f, 'z) db_scheme \<Rightarrow> error + ('f, 'z) db_scheme" where
  "save_new vf p st =
     (if valid_paper vf p then Inr (st\<lparr>papers := papers st @ [p]\<rparr>) else Inl ValidationError)"

definition save_existing ::
  "('f \<Rightarrow> bool) \<Rightarrow> 'f paper \<Rightarrow> ('f, 'z) db_scheme \<Rightarrow> error + ('f, 'z) db_scheme" where
  "save_existing vf p st =
     (if valid_paper vf p
      then Inr (st\<lparr>papers := map (\<lambda>q. if paper_id q = paper_id p then p else q) (papers st)\<rparr>)
      else Inl ValidationError)"

text \<open>The sub-documents made from \<open>req.files\<close>; Mongoose gives each its \<open>_id\<close>, here
  the ids \<open>ids n\<close>, \<open>ids (n + 1)\<close>, ... of the request's id supply.\<close>

fun cloud_files :: "(nat \<Rightarrow> oid) \<Rightarrow> nat \<Rightarrow> upload list \<Rightarrow> cloud_file list" where
  "cloud_files ids n [] = []"
| "cloud_files ids n (f # fs) =
     \<lparr>cf_id = ids n, url = up_path f, public_id = up_filename f,
      cf_originalName = originalname f\<rparr> # cloud_files ids (Suc n) fs"

fun disk_files :: "(nat \<Rightarrow> oid) \<Rightarrow> nat \<Rightarrow> nat \<Rightarrow> upload list \<Rightarrow> disk_file list" where
  "disk_files ids now n [] = []"
| "disk_files ids now n (f # fs) =
     \<lparr>df_id = ids n, path = up_path f, df_originalName = originalname f,
      df_createdAt = now\<rparr> # disk_files ids now (Suc n) fs"

text \<open>\<open>new Paper({ moderatorId, title, note, files })\<close>: a fresh \<open>_id\<close>, the
  \<open>moderatorId\<close> cast to an ObjectId, both dates from \<open>Date.now\<close>.\<close>

definition new_paper :: "oid \<Rightarrow> paper_body \<Rightarrow> 'f list \<Rightarrow> nat \<Rightarrow> 'f paper" where
  "new_paper i b fs now =
     \<lparr>paper_id = i, moderatorId = Option.bind (b_moderatorId b) castObjectId,
      title = b_title b, p_note = b_note b, files = fs, createdAt = now, updatedAt = now\<rparr>"

text \<open>\<open>cloudinary.uploader.destroy\<close>.\<close>

definition destroy :: "string \<Rightarrow> ('f, 'z) db_scheme \<Rightarrow> error + ('f, 'z) db_scheme" where
  "destroy pid st =
     (if pid \<in> set (failing st) then Inl UpstreamFailure
      else Inr (st\<lparr>assets := removeAll pid (assets st)\<rparr>))"

section \<open>Paper routes, Cloudinary variant\<close>

text \<open>\<open>POST /api/papers\<close>. Outside a multipart request multer leaves \<open>req.files\<close>
  undefined and \<open>req.files.map\<close> throws. Nothing catches a rejected \<open>save\<close>.\<close>

definition create_paper_cloud ::
  "(nat \<Rightarrow> oid) \<Rightarrow> claims \<Rightarrow> paper_body \<Rightarrow> upload list option \<Rightarrow> cloud_file db
     \<Rightarrow> cloud_file outcome \<times> cloud_file db" where
  "create_paper_cloud ids u b fs st =
     (if \<not> truthy (isAdmin u) then (access_denied, st)
      else case fs of
        None \<Rightarrow> (Uncaught TypeError, st)
      | Some reqfiles \<Rightarrow>
          (let paper = new_paper (ids 0) b (cloud_files ids 1 reqfiles) (clock st)
           in case save_new valid_cloud_file paper st of
                Inl err \<Rightarrow> (Uncaught err, st)
              | Inr st' \<Rightarrow> (Response 200 (PaperDoc paper), st')))"

text \<open>\<open>PUT /api/papers/:id\<close>. \<open>if (req.body.note)\<close> is false for a missing note and
  for the empty string. Nothing catches a rejected \<open>findById\<close> or \<open>save\<close>.\<close>

definition note_given :: "string option \<Rightarrow> bool" where
  "note_given n = (case n of None \<Rightarrow> False | Some s \<Rightarrow> s \<noteq> [])"

definition update_paper_cloud ::
  "(nat \<Rightarrow> oid) \<Rightarrow> claims \<Rightarrow> string \<Rightarrow> string option \<Rightarrow> upload list option \<Rightarrow> cloud_file db
     \<Rightarrow> cloud_file outcome \<times> cloud_file db" where
  "update_paper_cloud ids u i n fs st =
     (if \<not> truthy (isAdmin u) then (access_denied, st)
      else case findById i (papers st) of
        Inl err \<Rightarrow> (Uncaught err, st)
      | Inr None \<Rightarrow> (Response 404 (Text ''Paper not found.''), st)
      | Inr (Some paper) \<Rightarrow>
          (let paper1 = (if note_given n then paper\<lparr>p_note := n\<rparr> else paper)
           in case fs of
                None \<Rightarrow> (Uncaught TypeError, st)
              | Some reqfiles \<Rightarrow>
                  (let paper2 = (if length reqfiles > 0
                                 then paper1\<lparr>files := files paper1 @ cloud_files ids 0 reqfiles\<rparr>
                                 else paper1);
                       paper3 = paper2\<lparr>updatedAt := clock st\<rparr>
                   in case save_existing valid_cloud_file paper3 st of
                        Inl err \<Rightarrow> (Uncaught err, st)
                      | Inr st' \<Rightarrow> (Response 200 (PaperDoc paper3), st'))))"

text \<open>\<open>paper.files.id(fileId)\<close>: the id is cast, a failure of the cast being caught
  inside; the result is the sub-document whose \<open>_id\<close> is the cast id, or null.\<close>

definition files_id :: "string \<Rightarrow> cloud_file list \<Rightarrow> cloud_file option" where
  "files_id fileId fs =
     (case castObjectId fileId of
        None \<Rightarrow> None
      | Some c \<Rightarrow> find (\<lambda>f. cf_id f = c) fs)"

text \<open>\<open>DELETE /api/papers/:paperId/files/:fileId\<close>. The handler has no \<open>isAdmin\<close>
  test. \<open>file.remove()\<close> pulls the sub-document from its array; the \<open>catch\<close> answers
  500.\<close>

definition delete_file_cloud ::
  "claims \<Rightarrow> string \<Rightarrow> string \<Rightarrow> cloud_file db \<Rightarrow> cloud_file outcome \<times> cloud_file db" where
  "delete_file_cloud u paperId fileId st =
     (case findById paperId (papers st) of
        Inl err \<Rightarrow> (Response 500 (Text ''Error deleting file''), st)
      | Inr None \<Rightarrow> (Response 404 (Text ''Paper not found.''), st)
      | Inr (Some paper) \<Rightarrow>
          (case files_id fileId (files paper) of
             None \<Rightarrow> (Response 404 (Text ''File not found.''), st)
           | Some file \<Rightarrow>
               (case destroy (public_id file) st of
                  Inl err \<Rightarrow> (Response 500 (Text ''Error deleting file''), st)
                | Inr st1 \<Rightarrow>
                    (let paper' = paper\<lparr>files := filter (\<lambda>f. cf_id f \<noteq> cf_id file) (files paper)\<rparr>
                     in case save_existing valid_cloud_file paper' st1 of
                          Inl err \<Rightarrow> (Response 500 (Text ''Error deleting file''), st1)
                        | Inr st2 \<Rightarrow>
                            (Response 200 (Message ''File deleted successfully''), st2)))))"

text \<open>\<open>GET /api/papers/moderator/:moderatorId\<close>, the same in both variants. The guard
  compares the strings; nothing catches a rejected \<open>Paper.find\<close>.\<close>

definition papers_of_moderator ::
  "claims \<Rightarrow> string \<Rightarrow> ('f, 'z) db_scheme \<Rightarrow> 'f outcome \<times> ('f, 'z) db_scheme" where
  "papers_of_moderator u mid st =
     (if \<not> truthy (isAdmin u) \<and> claim_id u \<noteq> mid then (access_denied, st)
      else case find_by_moderator mid (papers st) of
        Inl err \<Rightarrow> (Uncaught err, st)
      | Inr ps \<Rightarrow> (Response 200 (PaperList ps), st))"

text \<open>\<open>DELETE /api/papers/:id\<close>. \<open>findByIdAndDelete\<close> removes the document first; the
  loop then destroys the files one by one, with nothing around it to catch a failure.\<close>

fun destroy_all :: "cloud_file list \<Rightarrow> ('f, 'z) db_scheme \<Rightarrow> error option \<times> ('f, 'z) db_scheme" where
  "destroy_all [] st = (None, st)"
| "destroy_all (f # fs) st =
     (case destroy (public_id f) st of
        Inl err \<Rightarrow> (Some err, st)
      | Inr st' \<Rightarrow> destroy_all fs st')"

definition delete_paper_cloud ::
  "claims \<Rightarrow> string \<Rightarrow> cloud_file db \<Rightarrow> cloud_file outcome \<times> cloud_file db" where
  "delete_paper_cloud u i st =
     (if \<not> truthy (isAdmin u) then (access_denied, st)
      else case findById i (papers st) of
        Inl err \<Rightarrow> (Uncaught err, st)
      | Inr None \<Rightarrow> (Response 404 (Text ''Paper not found.''), st)
      | Inr (Some paper) \<Rightarrow>
          (case destroy_all (files paper)
                  (st\<lparr>papers := filter (\<lambda>p. paper_id p \<noteq> paper_id paper) (papers st)\<rparr>) of
             (Some err, st') \<Rightarrow> (Uncaught err, st')
           | (None, st') \<Rightarrow> (Response 200 (Message ''Paper deleted successfully''), st')))"

section \<open>Paper routes, local-disk variant\<close>

definition create_paper_disk ::
  "(nat \<Rightarrow> oid) \<Rightarrow> claims \<Rightarrow> paper_body \<Rightarrow> upload list option \<Rightarrow> disk_file db
     \<Rightarrow> disk_file outcome \<times> disk_file db" where
  "create_paper_disk ids u b fs st =
     (if \<not> truthy (isAdmin u) then (access_denied, st)
      else case fs of
        None \<Rightarrow> (Uncaught TypeError, st)
      | Some reqfiles \<Rightarrow>
          (let paper = new_paper (ids 0) b (disk_files ids (clock st) 1 reqfiles) (clock st)
           in case save_new valid_disk_file paper st of
                Inl err \<Rightarrow> (Uncaught err, st)
              | Inr st' \<Rightarrow> (Response 200 (PaperDoc paper), st')))"

text \<open>\<open>PUT /api/papers/:id\<close>: the body is in a \<open>try\<close> whose \<open>catch\<close> answers 500,
  and \<open>req.files &&\<close> skips a missing \<open>req.files\<close>.\<close>

definition update_paper_disk ::
  "(nat \<Rightarrow> oid) \<Rightarrow> claims \<Rightarrow> string \<Rightarrow> string option \<Rightarrow> upload list option \<Rightarrow> disk_file db
     \<Rightarrow> disk_file outcome \<times> disk_file db" where
  "update_paper_disk ids u i n fs st =
     (if \<not> truthy (isAdmin u) then (access_denied, st)
      else case findById i (papers st) of
        Inl err \<Rightarrow> (Response 500 (Text ''Error updating paper''), st)
      | Inr None \<Rightarrow> (Response 404 (Text ''Paper not found.''), st)
      | Inr (Some paper) \<Rightarrow>
          (let paper1 = (if note_given n then paper\<lparr>p_note := n\<rparr> else paper);
               paper2 = (case fs of
                           None \<Rightarrow> paper1
                         | Some reqfiles \<Rightarrow>
                             if length reqfiles > 0
                             then paper1\<lparr>files := files paper1 @ disk_files ids (clock st) 0 reqfiles\<rparr>
                             else paper1);
               paper3 = paper2\<lparr>updatedAt := clock st\<rparr>
           in case save_existing valid_disk_file paper3 st of
                Inl err \<Rightarrow> (Response 500 (Text ''Error updating paper''), st)
              | Inr st' \<Rightarrow> (Response 200 (PaperDoc paper3), st')))"

text \<open>\<open>DELETE /api/papers/:paperId/files/:fileId\<close>: admin only; \<open>findIndex\<close> compares
  \<open>f._id.toString()\<close> with the string of the request, without a cast; then
  \<open>splice(fileIndex, 1)\<close>.\<close>

fun findIndex :: "('a \<Rightarrow> bool) \<Rightarrow> 'a list \<Rightarrow> nat option" where
  "findIndex P [] = None"
| "findIndex P (x # xs) =
     (if P x then Some 0 else map_option Suc (findIndex P xs))"

definition splice1 :: "nat \<Rightarrow> 'a list \<Rightarrow> 'a list" where
  "splice1 k xs = take k xs @ drop (Suc k) xs"

definition delete_file_disk ::
  "claims \<Rightarrow> string \<Rightarrow> string \<Rightarrow> disk_file db \<Rightarrow> disk_file outcome \<times> disk_file db" where
  "delete_file_disk u paperId fileId st =
     (if \<not> truthy (isAdmin u) then (access_denied, st)
      else case findById paperId (papers st) of
        Inl err \<Rightarrow> (Response 500 (Text ''Error deleting file''), st)
      | Inr None \<Rightarrow> (Response 404 (Text ''Paper not found.''), st)
      | Inr (Some paper) \<Rightarrow>
          (case findIndex (\<lambda>f. df_id f = fileId) (files paper) of
             None \<Rightarrow> (Response 404 (Text ''File not found.''), st)
           | Some fileIndex \<Rightarrow>
               (let paper' = paper\<lparr>files := splice1 fileIndex (files paper)\<rparr>
                in case save_existing valid_disk_file paper' st of
                     Inl err \<Rightarrow> (Response 500 (Text ''Error deleting file''), st)
                   | Inr st' \<Rightarrow> (Response 200 (Message ''File deleted successfully''), st'))))"

text \<open>\<open>DELETE /api/papers/:id\<close>: the document only; the files stay on the disk.\<close>

definition delete_paper_disk ::
  "claims \<Rightarrow> string \<Rightarrow> disk_file db \<Rightarrow> disk_file outcome \<times> disk_file db" where
  "delete_paper_disk u i st =
     (if \<not> truthy (isAdmin u) then (access_denied, st)
      else case findById i (papers st) of
        Inl err \<Rightarrow> (Uncaught err, st)
      | Inr None \<Rightarrow> (Response 404 (Text ''Paper not found.''), st)
      | Inr (Some paper) \<Rightarrow>
          (Response 200 (Message ''Paper deleted successfully''),
           st\<lparr>papers := filter (\<lambda>p. paper_id p \<noteq> paper_id paper) (papers st)\<rparr>))"

section \<open>A concrete installation\<close>

text \<open>Stores and callers on which the routes are run: the moderator alice owns one paper
  with two files; bob is another moderator; the clock has moved on since the paper
  was written.\<close>

definition test_env :: env where
  "test_env = \<lparr>JWT_SECRET = None, ADMIN_PASSWORD = Some ''s3cret'',
               bcrypt_hash = (\<lambda>p. ''$2a$10$'' @ p),
               bcrypt_compare = (\<lambda>p h. h = ''$2a$10$'' @ p)\<rparr>"

definition admin_claims :: claims where
  "admin_claims = \<lparr>claim_id = ''admin'', isAdmin = Some True, claim_username = None\<rparr>"

definition alice :: user where
  "alice = \<lparr>user_id = ''65a1b2c3d4e5f60718293a4a'', username = ''alice'',
            password = ''$2a$10$wonderland''\<rparr>"

definition bob :: user where
  "bob = \<lparr>user_id = ''65a1b2c3d4e5f60718293a4b'', username = ''bob'',
          password = ''$2a$10$builder''\<rparr>"

definition bob_claims :: claims where
  "bob_claims = \<lparr>claim_id = user_id bob, isAdmin = None, claim_username = Some ''bob''\<rparr>"

definition test_ids :: "nat \<Rightarrow> oid" where
  "test_ids n = ''65a1b2c3d4e5f60718293d'' @ [''0123456789abcdef'' ! (n div 16 mod 16),
                                             ''0123456789abcdef'' ! (n mod 16)]"

text \<open>Three files as multer's disk storage hands them over.\<close>

definition upload_a :: upload where
  "upload_a = \<lparr>up_path = ''uploads/1700000000000-a.pdf'', up_filename = ''1700000000000-a.pdf'',
               originalname = ''a.pdf''\<rparr>"

definition upload_b :: upload where
  "upload_b = \<lparr>up_path = ''uploads/1700000000001-b.pdf'', up_filename = ''1700000000001-b.pdf'',
               originalname = ''b.pdf''\<rparr>"

definition upload_c :: upload where
  "upload_c = \<lparr>up_path = ''uploads/1700000000002-c.png'', up_filename = ''1700000000002-c.png'',
               originalname = ''c.png''\<rparr>"

definition cloud_file1 :: cloud_file where
  "cloud_file1 = \<lparr>cf_id = ''65a1b2c3d4e5f60718293c01'', url = ''https://res.cloudinary.com/x/a.pdf'',
                  public_id = ''event-papers/a'', cf_originalName = ''a.pdf''\<rparr>"

definition cloud_file2 :: cloud_file where
  "cloud_file2 = \<lparr>cf_id = ''65a1b2c3d4e5f60718293c02'', url = ''https://res.cloudinary.com/x/b.pdf'',
                  public_id = ''event-papers/b'', cf_originalName = ''b.pdf''\<rparr>"

definition cloud_paper1 :: "cloud_file paper" where
  "cloud_paper1 = \<lparr>paper_id = ''65a1b2c3d4e5f60718293b01'', moderatorId = Some (user_id alice),
                   title = Some ''T'', p_note = Some ''N'', files = [cloud_file1, cloud_file2],
                   createdAt = 100, updatedAt = 100\<rparr>"

definition cloud_db1 :: "cloud_file db" where
  "cloud_db1 = \<lparr>users = [alice, bob], papers = [cloud_paper1], clock = 200,
                assets = [''event-papers/a'', ''event-papers/b''], failing = []\<rparr>"

definition disk_file1 :: disk_file where
  "disk_file1 = \<lparr>df_id = ''65a1b2c3d4e5f60718293c01'', path = ''uploads/1690000000000-a.pdf'',
                 df_originalName = ''a.pdf'', df_createdAt = 100\<rparr>"

definition disk_file2 :: disk_file where
  "disk_file2 = \<lparr>df_id = ''65a1b2c3d4e5f60718293c02'', path = ''uploads/1690000000000-b.pdf'',
                 df_originalName = ''b.pdf'', df_createdAt = 100\<rparr>"

definition disk_paper1 :: "disk_file paper" where
  "disk_paper1 = \<lparr>paper_id = ''65a1b2c3d4e5f60718293b01'', moderatorId = Some (user_id alice),
                  title = Some ''T'', p_note = Some ''N'', files = [disk_file1, disk_file2],
                  createdAt = 100, updatedAt = 100\<rparr>"

definition disk_db1 :: "disk_file db" where
  "disk_db1 = \<lparr>users = [alice, bob], papers = [disk_paper1], clock = 200,
               assets = [], failing = []\<rparr>"

definition cloud_paper0 :: "cloud_file paper" where
  "cloud_paper0 = cloud_paper1\<lparr>files := []\<rparr>"

definition cloud_db0 :: "cloud_file db" where
  "cloud_db0 = cloud_db1\<lparr>papers := [cloud_paper0], assets := []\<rparr>"

text \<open>Three files as multer's Cloudinary storage hands them over, the sub-documents
  they become, and alice's paper after a and b have been appended at time 200 and c at
  time 300.\<close>

definition cloud_upload_a :: upload where
  "cloud_upload_a = \<lparr>up_path = ''https://res.cloudinary.com/x/event-papers/ua.pdf'',
                     up_filename = ''event-papers/ua'', originalname = ''a.pdf''\<rparr>"

definition cloud_upload_b :: upload where
  "cloud_upload_b = \<lparr>up_path = ''https://res.cloudinary.com/x/event-papers/ub.pdf'',
                     up_filename = ''event-papers/ub'', originalname = ''b.pdf''\<rparr>"

definition cloud_upload_c :: upload where
  "cloud_upload_c = \<lparr>up_path = ''https://res.cloudinary.com/x/event-papers/uc.png'',
                     up_filename = ''event-papers/uc'', originalname = ''c.png''\<rparr>"

definition cloud_file_a :: cloud_file where
  "cloud_file_a = \<lparr>cf_id = ''65a1b2c3d4e5f60718293d00'',
                   url = ''https://res.cloudinary.com/x/event-papers/ua.pdf'',
                   public_id = ''event-papers/ua'', cf_originalName = ''a.pdf''\<rparr>"

definition cloud_file_b :: cloud_file where
  "cloud_file_b = \<lparr>cf_id = ''65a1b2c3d4e5f60718293d01'',
                   url = ''https://res.cloudinary.com/x/event-papers/ub.pdf'',
                   public_id = ''event-papers/ub'', cf_originalName = ''b.pdf''\<rparr>"

definition cloud_file_c :: cloud_file where
  "cloud_file_c = \<lparr>cf_id = ''65a1b2c3d4e5f60718293d02'',
                   url = ''https://res.cloudinary.com/x/event-papers/uc.png'',
                   public_id = ''event-papers/uc'', cf_originalName = ''c.png''\<rparr>"

definition cloud_paper_ab :: "cloud_file paper" where
  "cloud_paper_ab = cloud_paper0\<lparr>files := [cloud_file_a, cloud_file_b], updatedAt := 200\<rparr>"

definition cloud_paper_abc :: "cloud_file paper" where
  "cloud_paper_abc =
     cloud_paper0\<lparr>files := [cloud_file_a, cloud_file_b, cloud_file_c], updatedAt := 300\<rparr>"

text \<open>The same for the local disk, with the uploads \<open>upload_a\<close>, \<open>upload_b\<close> and
  \<open>upload_c\<close>.\<close>

definition disk_paper0 :: "disk_file paper" where
  "disk_paper0 = disk_paper1\<lparr>files := []\<rparr>"

definition disk_db0 :: "disk_file db" where
  "disk_db0 = disk_db1\<lparr>papers := [disk_paper0]\<rparr>"

definition disk_file_a :: disk_file where
  "disk_file_a = \<lparr>df_id = ''65a1b2c3d4e5f60718293d00'', path = ''uploads/1700000000000-a.pdf'',
                  df_originalName = ''a.pdf'', df_createdAt = 200\<rparr>"

definition disk_file_b :: disk_file where
  "disk_file_b = \<lparr>df_id = ''65a1b2c3d4e5f60718293d01'', path = ''uploads/1700000000001-b.pdf'',
                  df_originalName = ''b.pdf'', df_createdAt = 200\<rparr>"

definition disk_file_c :: disk_file where
  "disk_file_c = \<lparr>df_id = ''65a1b2c3d4e5f60718293d02'', path = ''uploads/1700000000002-c.png'',
                  df_originalName = ''c.png'', df_createdAt = 300\<rparr>"

definition disk_paper_ab :: "disk_file paper" where
  "disk_paper_ab = disk_paper0\<lparr>files := [disk_file_a, disk_file_b], updatedAt := 200\<rparr>"

definition disk_paper_abc :: "disk_file paper" where
  "disk_paper_abc =
     disk_paper0\<lparr>files := [disk_file_a, disk_file_b, disk_file_c], updatedAt := 300\<rparr>"

text \<open>The same installation while Cloudinary rejects the request to destroy the first
  file's asset.\<close>

definition cloud_db_down :: "cloud_file db" where
  "cloud_db_down = cloud_db1\<lparr>failing := [''event-papers/a'']\<rparr>"

section \<open>Facts about the model\<close>

lemmas test_defs = test_env_def admin_claims_def alice_def bob_def bob_claims_def
  upload_a_def upload_b_def upload_c_def cloud_file1_def cloud_file2_def cloud_paper1_def
  cloud_db1_def disk_file1_def disk_file2_def disk_paper1_def disk_db1_def
  cloud_paper0_def cloud_db0_def cloud_db_down_def
  cloud_upload_a_def cloud_upload_b_def cloud_upload_c_def
  cloud_file_a_def cloud_file_b_def cloud_file_c_def cloud_paper_ab_def cloud_paper_abc_def
  disk_paper0_def disk_db0_def disk_file_a_def disk_file_b_def disk_file_c_def
  disk_paper_ab_def disk_paper_abc_def

lemmas cast_defs = castObjectId_def isHexDigit_def toLowerHex_def hexByte_def

lemma lower_hex_digit:
  "c \<in> set ''0123456789abcdef'' \<Longrightarrow> isHexDigit c \<and> toLowerHex c = c"
  unfolding isHexDigit_def toLowerHex_def by fastforce

lemma castObjectId_canonical:
  assumes "length s = 24" and "set s \<subseteq> set ''0123456789abcdef''"
  shows "castObjectId s = Some s"
proof -
  have each: "\<And>c. c \<in> set s \<Longrightarrow> isHexDigit c \<and> toLowerHex c = c"
    using assms(2) lower_hex_digit by blast
  have "list_all isHexDigit s"
    unfolding list_all_iff using each by blast
  moreover have "map toLowerHex s = s"
    by (rule map_idI) (use each in blast)
  ultimately show ?thesis
    using assms(1) by (simp add: castObjectId_def)
qed

lemma cast_examples:
  "castObjectId ''65a1b2c3d4e5f60718293b01'' = Some ''65a1b2c3d4e5f60718293b01''"
  "castObjectId ''65a1b2c3d4e5f60718293c01'' = Some ''65a1b2c3d4e5f60718293c01''"
  "castObjectId ''65a1b2c3d4e5f60718293c09'' = Some ''65a1b2c3d4e5f60718293c09''"
  "castObjectId ''65a1b2c3d4e5f60718293a4a'' = Some ''65a1b2c3d4e5f60718293a4a''"
  "castObjectId ''65a1b2c3d4e5f60718293aff'' = Some ''65a1b2c3d4e5f60718293aff''"
  "castObjectId ''65A1B2C3D4E5F60718293C01'' = Some ''65a1b2c3d4e5f60718293c01''"
  "castObjectId ''65A1B2C3D4E5F60718293A4A'' = Some ''65a1b2c3d4e5f60718293a4a''"
  "castObjectId ''not-an-id'' = None"
  "castObjectId ''abcdefghijkl'' = Some ''6162636465666768696a6b6c''"
  by (simp_all add: cast_defs)

lemma findById_Some: "findById i ps = Inr (Some p) \<Longrightarrow> castObjectId i = Some (paper_id p)"
proof -
  assume a: "findById i ps = Inr (Some p)"
  then obtain c where c: "castObjectId i = Some c" and f: "find (\<lambda>q. paper_id q = c) ps = Some p"
    by (auto simp: findById_def split: option.splits)
  from f have "paper_id p = c"
    by (induction ps) (auto split: if_splits)
  with c show ?thesis by simp
qed

lemma find_replace:
  "find (\<lambda>q. paper_id q = c) ps = Some p \<Longrightarrow> paper_id p' = c \<Longrightarrow>
   find (\<lambda>q. paper_id q = c) (map (\<lambda>q. if paper_id q = c then p' else q) ps) = Some p'"
  by (induction ps) (auto split: if_splits)

lemma findById_replace:
  assumes "findById i ps = Inr (Some p)" and "paper_id p' = paper_id p"
  shows "findById i (map (\<lambda>q. if paper_id q = paper_id p' then p' else q) ps) = Inr (Some p')"
proof -
  have c: "castObjectId i = Some (paper_id p)"
    using assms(1) by (rule findById_Some)
  then have "find (\<lambda>q. paper_id q = paper_id p) ps = Some p"
    using assms(1) by (simp add: findById_def)
  then have "find (\<lambda>q. paper_id q = paper_id p)
               (map (\<lambda>q. if paper_id q = paper_id p then p' else q) ps) = Some p'"
    using assms(2) by (rule find_replace)
  then show ?thesis
    by (simp add: findById_def c assms(2))
qed

lemma find_filter_out: "find (\<lambda>q. paper_id q = c) (filter (\<lambda>q. paper_id q \<noteq> c) ps) = None"
  by (induction ps) auto

lemma findById_filter_out:
  "findById i ps = Inr (Some p) \<Longrightarrow>
   findById i (filter (\<lambda>q. paper_id q \<noteq> paper_id p) ps) = Inr None"
proof -
  assume a: "findById i ps = Inr (Some p)"
  then have "castObjectId i = Some (paper_id p)"
    by (rule findById_Some)
  then show ?thesis
    by (simp add: findById_def find_filter_out)
qed

lemma files_id_absent:
  "set_option (castObjectId fileId) \<inter> cf_id ` set fs = {} \<Longrightarrow> files_id fileId fs = None"
proof (cases "castObjectId fileId")
  case None
  then show ?thesis by (simp add: files_id_def)
next
  case (Some c)
  assume "set_option (castObjectId fileId) \<inter> cf_id ` set fs = {}"
  with Some have "c \<notin> cf_id ` set fs" by simp
  then have "find (\<lambda>f. cf_id f = c) fs = None"
    by (induction fs) auto
  with Some show ?thesis by (simp add: files_id_def)
qed

lemma findIndex_absent: "x \<notin> g ` set fs \<Longrightarrow> findIndex (\<lambda>f. g f = x) fs = None"
  by (induction fs) auto

lemma authenticate_verified:
  "jwt_verify t (secret e) = Some u \<Longrightarrow> authenticate e (Some t) handler st = handler u st"
  by (simp add: authenticate_def)

lemma save_existing_Inr:
  "save_existing vf p st = Inr st' \<Longrightarrow>
   st' = st\<lparr>papers := map (\<lambda>q. if paper_id q = paper_id p then p else q) (papers st)\<rparr>"
  by (simp add: save_existing_def split: if_splits)

lemma destroy_all_papers: "papers (snd (destroy_all fs st)) = papers st"
  by (induction fs arbitrary: st) (auto simp: destroy_def split: sum.splits)

lemma destroy_all_outcome:
  "fst (destroy_all fs st) =
     (if set (map public_id fs) \<inter> set (failing st) = {} then None else Some UpstreamFailure)"
  by (induction fs arbitrary: st) (auto simp: destroy_def split: sum.splits)

text \<open>The cast at work: the Cloudinary handler finds a file under the upper-case
  spelling of its id, the local-disk handler, which compares strings, does not.\<close>

lemma delete_file_cloud_casts_the_id:
  "delete_file_cloud admin_claims ''65a1b2c3d4e5f60718293b01'' ''65A1B2C3D4E5F60718293C01'' cloud_db1 =
     (Response 200 (Message ''File deleted successfully''),
      cloud_db1\<lparr>papers := [cloud_paper1\<lparr>files := [cloud_file2]\<rparr>],
                assets := [''event-papers/b'']\<rparr>) \<and>
   delete_file_disk admin_claims ''65a1b2c3d4e5f60718293b01'' ''65A1B2C3D4E5F60718293C01'' disk_db1 =
     (Response 404 (Text ''File not found.''), disk_db1)"
  by (simp add: delete_file_cloud_def delete_file_disk_def findById_def files_id_def
      cast_examples destroy_def
      save_existing_def valid_paper_def valid_cloud_file_def required_string_def maxlength_def
      truthy_def access_denied_def test_defs)

text \<open>\<open>DELETE /api/papers/:id\<close> by an admin on an existing paper always removes the
  paper from the collection; the Cloudinary handler answers 200 exactly when no
  \<open>destroy\<close> request fails.\<close>

lemma delete_paper_record_removed:
  "truthy (isAdmin u) \<Longrightarrow>
   (findById i (papers sc) = Inr (Some pc) \<longrightarrow>
      papers (snd (delete_paper_cloud u i sc)) =
        filter (\<lambda>q. paper_id q \<noteq> paper_id pc) (papers sc) \<and>
      findById i (papers (snd (delete_paper_cloud u i sc))) = Inr None \<and>
      fst (delete_paper_cloud u i sc) =
        (if set (map public_id (files pc)) \<inter> set (failing sc) = {}
         then Response 200 (Message ''Paper deleted successfully'')
         else Uncaught UpstreamFailure)) \<and>
   (findById i (papers sd) = Inr (Some pd) \<longrightarrow>
      delete_paper_disk u i sd =
        (Response 200 (Message ''Paper deleted successfully''),
         sd\<lparr>papers := filter (\<lambda>q. paper_id q \<noteq> paper_id pd) (papers sd)\<rparr>) \<and>
      findById i (papers (snd (delete_paper_disk u i sd))) = Inr None)"
proof (intro conjI impI)
  assume adm: "truthy (isAdmin u)" and found: "findById i (papers sc) = Inr (Some pc)"
  let ?s1 = "sc\<lparr>papers := filter (\<lambda>q. paper_id q \<noteq> paper_id pc) (papers sc)\<rparr>"
  have r: "delete_paper_cloud u i sc =
      (case fst (destroy_all (files pc) ?s1) of
         Some err \<Rightarrow> Uncaught err
       | None \<Rightarrow> Response 200 (Message ''Paper deleted successfully''),
       snd (destroy_all (files pc) ?s1))"
    using adm found by (simp add: delete_paper_cloud_def split: prod.splits option.splits)
  show ps: "papers (snd (delete_paper_cloud u i sc)) =
      filter (\<lambda>q. paper_id q \<noteq> paper_id pc) (papers sc)"
    by (simp add: r destroy_all_papers)
  show "findById i (papers (snd (delete_paper_cloud u i sc))) = Inr None"
    by (simp only: ps findById_filter_out [OF found])
  show "fst (delete_paper_cloud u i sc) =
        (if set (map public_id (files pc)) \<inter> set (failing sc) = {}
         then Response 200 (Message ''Paper deleted successfully'')
         else Uncaught UpstreamFailure)"
    by (simp add: r destroy_all_outcome)
next
  assume adm: "truthy (isAdmin u)" and found: "findById i (papers sd) = Inr (Some pd)"
  then show d: "delete_paper_disk u i sd =
        (Response 200 (Message ''Paper deleted successfully''),
         sd\<lparr>papers := filter (\<lambda>q. paper_id q \<noteq> paper_id pd) (papers sd)\<rparr>)"
    by (simp add: delete_paper_disk_def)
  show "findById i (papers (snd (delete_paper_disk u i sd))) = Inr None"
    by (simp add: d findById_filter_out [OF found])
qed

lemma jwt_verify_sign: "jwt_verify (jwt_sign c k) k = Some c"
  by (simp add: jwt_sign_def)

lemma moderator_login_token:
  "moderator_login e un pw st = Response 200 (TokenUser t name) \<Longrightarrow>
   \<exists>m::user. t = jwt_sign \<lparr>claim_id = user_id m, isAdmin = None, claim_username = Some (username m)\<rparr>
            (secret e)"
  by (fastforce simp: moderator_login_def split: option.splits if_splits)

lemma guarded_routes_deny:
  "\<not> truthy (isAdmin c) \<Longrightarrow>
   create_moderator e nid c a b st = (Response 403 (Text ''Access denied.''), st) \<and>
   list_moderators c st = (Response 403 (Text ''Access denied.''), st) \<and>
   delete_moderator c m st = (Response 403 (Text ''Access denied.''), st) \<and>
   create_paper_cloud ids c pb fs sc = (Response 403 (Text ''Access denied.''), sc) \<and>
   update_paper_cloud ids c i n fs sc = (Response 403 (Text ''Access denied.''), sc) \<and>
   delete_paper_cloud c i sc = (Response 403 (Text ''Access denied.''), sc) \<and>
   create_paper_disk ids c pb fs sd = (Response 403 (Text ''Access denied.''), sd) \<and>
   update_paper_disk ids c i n fs sd = (Response 403 (Text ''Access denied.''), sd) \<and>
   delete_file_disk c i f sd = (Response 403 (Text ''Access denied.''), sd) \<and>
   delete_paper_disk c i sd = (Response 403 (Text ''Access denied.''), sd)"
  by (simp add: create_moderator_def list_moderators_def delete_moderator_def
      create_paper_cloud_def update_paper_cloud_def delete_paper_cloud_def
      create_paper_disk_def update_paper_disk_def delete_file_disk_def delete_paper_disk_def
      access_denied_def)

lemma cloud_files_arrival:
  "map url (cloud_files ids k fs) = map up_path fs \<and>
   map public_id (cloud_files ids k fs) = map up_filename fs \<and>
   map cf_originalName (cloud_files ids k fs) = map originalname fs"
  by (induction fs arbitrary: k) auto

lemma disk_files_arrival:
  "map path (disk_files ids now k fs) = map up_path fs \<and>
   map df_originalName (disk_files ids now k fs) = map originalname fs"
  by (induction fs arbitrary: k) auto

lemma note_given_iff: "note_given n = (n \<noteq> None \<and> n \<noteq> Some [])"
  by (simp add: note_given_def split: option.splits)

lemma update_paper_cloud_ok:
  assumes "findById i (papers sc) = Inr (Some pc)"
    and "update_paper_cloud ids u i n fs sc = (Response 200 (PaperDoc pc'), sc')"
  shows "\<exists>batch. fs = Some batch \<and>
     pc' = pc\<lparr>p_note := (if note_given n then n else p_note pc),
              files := files pc @ cloud_files ids 0 batch, updatedAt := clock sc\<rparr> \<and>
     sc' = sc\<lparr>papers := map (\<lambda>q. if paper_id q = paper_id pc' then pc' else q) (papers sc)\<rparr>"
  using assms
  by (auto simp: update_paper_cloud_def access_denied_def Let_def
      split: if_splits sum.splits option.splits dest!: save_existing_Inr)

lemma update_paper_disk_ok:
  assumes "findById i (papers sd) = Inr (Some pd)"
    and "update_paper_disk ids u i n fs sd = (Response 200 (PaperDoc pd'), sd')"
  shows "pd' = pd\<lparr>p_note := (if note_given n then n else p_note pd),
              files := files pd @ (case fs of None \<Rightarrow> []
                                   | Some batch \<Rightarrow> disk_files ids (clock sd) 0 batch),
              updatedAt := clock sd\<rparr> \<and>
     sd' = sd\<lparr>papers := map (\<lambda>q. if paper_id q = paper_id pd' then pd' else q) (papers sd)\<rparr>"
  using assms
  by (auto simp: update_paper_disk_def access_denied_def Let_def
      split: if_splits sum.splits option.splits dest!: save_existing_Inr)

lemma update_paper_cloud_failed:
  "(\<forall>q. fst (update_paper_cloud ids u i n fs sc) \<noteq> Response 200 (PaperDoc q)) \<Longrightarrow>
   snd (update_paper_cloud ids u i n fs sc) = sc"
  by (auto simp: update_paper_cloud_def Let_def split: option.splits sum.splits)

lemma update_paper_disk_failed:
  "(\<forall>q. fst (update_paper_disk ids u i n fs sd) \<noteq> Response 200 (PaperDoc q)) \<Longrightarrow>
   snd (update_paper_disk ids u i n fs sd) = sd"
  by (auto simp: update_paper_disk_def Let_def split: option.splits sum.splits)

lemma valid_paper_updated:
  assumes "valid_paper vf p" and "list_all vf new" and "maxlength 500 n"
  shows "valid_paper vf (p\<lparr>p_note := (if note_given n then n else p_note p),
                           files := files p @ new, updatedAt := t\<rparr>)"
  using assms
  by (auto simp: valid_paper_def note_given_def required_string_def split: option.splits)

lemma update_paper_cloud_succeeds:
  assumes "truthy (isAdmin u)" and "findById i (papers sc) = Inr (Some pc)"
    and "valid_paper valid_cloud_file pc"
    and "list_all valid_cloud_file (cloud_files ids 0 batch)" and "maxlength 500 n"
  shows "update_paper_cloud ids u i n (Some batch) sc =
     (Response 200 (PaperDoc
        (pc\<lparr>p_note := (if note_given n then n else p_note pc),
            files := files pc @ cloud_files ids 0 batch, updatedAt := clock sc\<rparr>)),
      sc\<lparr>papers := map (\<lambda>q. if paper_id q = paper_id pc
                              then pc\<lparr>p_note := (if note_given n then n else p_note pc),
                                     files := files pc @ cloud_files ids 0 batch,
                                     updatedAt := clock sc\<rparr>
                              else q) (papers sc)\<rparr>)"
proof -
  let ?p3 = "pc\<lparr>p_note := (if note_given n then n else p_note pc),
            files := files pc @ cloud_files ids 0 batch, updatedAt := clock sc\<rparr>"
  have v: "valid_paper valid_cloud_file ?p3"
    using assms(3-5) by (rule valid_paper_updated)
  show ?thesis
    using assms(1,2) v
    by (cases batch; cases "note_given n")
      (simp_all add: update_paper_cloud_def Let_def save_existing_def)
qed

lemma update_paper_disk_succeeds:
  assumes "truthy (isAdmin u)" and "findById i (papers sd) = Inr (Some pd)"
    and "valid_paper valid_disk_file pd"
    and "list_all valid_disk_file (disk_files ids (clock sd) 0 batch)" and "maxlength 500 n"
  shows "update_paper_disk ids u i n (Some batch) sd =
     (Response 200 (PaperDoc
        (pd\<lparr>p_note := (if note_given n then n else p_note pd),
            files := files pd @ disk_files ids (clock sd) 0 batch, updatedAt := clock sd\<rparr>)),
      sd\<lparr>papers := map (\<lambda>q. if paper_id q = paper_id pd
                              then pd\<lparr>p_note := (if note_given n then n else p_note pd),
                                     files := files pd @ disk_files ids (clock sd) 0 batch,
                                     updatedAt := clock sd\<rparr>
                              else q) (papers sd)\<rparr>)"
proof -
  let ?p3 = "pd\<lparr>p_note := (if note_given n then n else p_note pd),
            files := files pd @ disk_files ids (clock sd) 0 batch, updatedAt := clock sd\<rparr>"
  have v: "valid_paper valid_disk_file ?p3"
    using assms(3-5) by (rule valid_paper_updated)
  show ?thesis
    using assms(1,2) v
    by (cases batch; cases "note_given n")
      (simp_all add: update_paper_disk_def Let_def save_existing_def)
qed

lemmas run_defs = findById_def cast_examples note_given_def save_existing_def valid_paper_def
  valid_cloud_file_def valid_disk_file_def required_string_def maxlength_def truthy_def
  Let_def test_ids_def

section \<open>Authorization\<close>

text \<open>
  C1. Deleting an attachment requires admin authorization in both variants: a caller
  whose claims lack \<open>isAdmin\<close> gets Forbidden and the attachments stay as they are.
  The Cloudinary handler has no such test. Run for the moderator bob on alice's paper, it
  answers 200, pulls the first file from the paper and destroys its asset; the local-disk
  handler answers 403 to the same request and changes nothing.
\<close>

theorem delete_file_cloud_open_to_moderators:
  "\<not> truthy (isAdmin bob_claims) \<and>
   delete_file_cloud bob_claims ''65a1b2c3d4e5f60718293b01'' ''65a1b2c3d4e5f60718293c01'' cloud_db1 =
     (Response 200 (Message ''File deleted successfully''),
      cloud_db1\<lparr>papers := [cloud_paper1\<lparr>files := [cloud_file2]\<rparr>],
                assets := [''event-papers/b'']\<rparr>) \<and>
   delete_file_disk bob_claims ''65a1b2c3d4e5f60718293b01'' ''65a1b2c3d4e5f60718293c01'' disk_db1 =
     (Response 403 (Text ''Access denied.''), disk_db1)"
  by (simp add: delete_file_cloud_def delete_file_disk_def findById_def files_id_def
      cast_examples destroy_def
      save_existing_def valid_paper_def valid_cloud_file_def required_string_def maxlength_def
      truthy_def access_denied_def test_defs)

text \<open>
  C6, as claimed: on \<open>GET /api/papers/moderator/:moderatorId\<close> every caller with
  \<open>isAdmin\<close> in the claims succeeds. The admin asking for an id that does not cast to
  an ObjectId gets no answer: \<open>Paper.find\<close> rejects with a CastError.
\<close>

theorem papers_of_moderator_uncastable_id:
  "truthy (isAdmin admin_claims) \<and>
   jwt_verify (Signed ''your-secret-key'' admin_claims) (secret test_env) = Some admin_claims \<and>
   authenticate test_env (Some (Signed ''your-secret-key'' admin_claims))
       (\<lambda>c. papers_of_moderator c ''not-an-id'') cloud_db1 =
     (Uncaught CastError, cloud_db1)"
  by (simp add: authenticate_def secret_def papers_of_moderator_def find_by_moderator_def
      cast_examples truthy_def test_env_def admin_claims_def)

text \<open>
  C6, amended. \<open>GET /api/papers/moderator/:moderatorId\<close>, for a caller whose token
  verifies: with \<open>isAdmin\<close> in the claims and a requested id that casts to an ObjectId,
  the request succeeds and returns the papers whose \<open>moderatorId\<close> is that ObjectId;
  without \<open>isAdmin\<close>, and with a subject id other than the requested one, the request
  fails with 403.
\<close>

theorem papers_of_moderator_admin_or_self:
  "jwt_verify t (secret e) = Some u \<Longrightarrow>
   (truthy (isAdmin u) \<and> castObjectId mid = Some m \<longrightarrow>
      authenticate e (Some t) (\<lambda>c. papers_of_moderator c mid) st =
        (Response 200 (PaperList (filter (\<lambda>p. moderatorId p = Some m) (papers st))), st)) \<and>
   (\<not> truthy (isAdmin u) \<and> claim_id u \<noteq> mid \<longrightarrow>
      authenticate e (Some t) (\<lambda>c. papers_of_moderator c mid) st =
        (Response 403 (Text ''Access denied.''), st))"
  by (simp add: authenticate_verified papers_of_moderator_def find_by_moderator_def
      access_denied_def)

theorem papers_of_moderator_admin_or_self_witness:
  "jwt_verify (Signed ''your-secret-key'' admin_claims) (secret test_env) = Some admin_claims \<and>
   truthy (isAdmin admin_claims) \<and>
   castObjectId ''65a1b2c3d4e5f60718293a4a'' = Some (user_id alice) \<and>
   authenticate test_env (Some (Signed ''your-secret-key'' admin_claims))
       (\<lambda>c. papers_of_moderator c ''65a1b2c3d4e5f60718293a4a'') cloud_db1 =
     (Response 200 (PaperList [cloud_paper1]), cloud_db1) \<and>
   castObjectId ''65A1B2C3D4E5F60718293A4A'' = Some (user_id alice) \<and>
   authenticate test_env (Some (Signed ''your-secret-key'' admin_claims))
       (\<lambda>c. papers_of_moderator c ''65A1B2C3D4E5F60718293A4A'') cloud_db1 =
     (Response 200 (PaperList [cloud_paper1]), cloud_db1) \<and>
   jwt_verify (Signed ''your-secret-key'' bob_claims) (secret test_env) = Some bob_claims \<and>
   \<not> truthy (isAdmin bob_claims) \<and> claim_id bob_claims \<noteq> ''65a1b2c3d4e5f60718293a4a'' \<and>
   authenticate test_env (Some (Signed ''your-secret-key'' bob_claims))
       (\<lambda>c. papers_of_moderator c ''65a1b2c3d4e5f60718293a4a'') cloud_db1 =
     (Response 403 (Text ''Access denied.''), cloud_db1)"
proof -
  have va: "jwt_verify (Signed ''your-secret-key'' admin_claims) (secret test_env) = Some admin_claims"
    by (simp add: secret_def test_env_def)
  have vb: "jwt_verify (Signed ''your-secret-key'' bob_claims) (secret test_env) = Some bob_claims"
    by (simp add: secret_def test_env_def)
  have a: "truthy (isAdmin admin_claims)"
    by (simp add: truthy_def admin_claims_def)
  have b: "\<not> truthy (isAdmin bob_claims) \<and> claim_id bob_claims \<noteq> ''65a1b2c3d4e5f60718293a4a''"
    by (simp add: truthy_def bob_claims_def bob_def)
  have c1: "castObjectId ''65a1b2c3d4e5f60718293a4a'' = Some (user_id alice)"
    by (simp add: cast_examples alice_def)
  have c2: "castObjectId ''65A1B2C3D4E5F60718293A4A'' = Some (user_id alice)"
    by (simp add: cast_examples alice_def)
  have own: "filter (\<lambda>p. moderatorId p = Some (user_id alice)) (papers cloud_db1) = [cloud_paper1]"
    by (simp add: cloud_db1_def cloud_paper1_def)
  note admin1 = papers_of_moderator_admin_or_self
      [OF va, where mid = "''65a1b2c3d4e5f60718293a4a''" and m = "user_id alice" and st = cloud_db1]
  note admin2 = papers_of_moderator_admin_or_self
      [OF va, where mid = "''65A1B2C3D4E5F60718293A4A''" and m = "user_id alice" and st = cloud_db1]
  note other = papers_of_moderator_admin_or_self
      [OF vb, where mid = "''65a1b2c3d4e5f60718293a4a''" and m = "user_id alice" and st = cloud_db1]
  from admin1 a c1 own have r1:
    "authenticate test_env (Some (Signed ''your-secret-key'' admin_claims))
       (\<lambda>c. papers_of_moderator c ''65a1b2c3d4e5f60718293a4a'') cloud_db1 =
     (Response 200 (PaperList [cloud_paper1]), cloud_db1)"
    by simp
  from admin2 a c2 own have r2:
    "authenticate test_env (Some (Signed ''your-secret-key'' admin_claims))
       (\<lambda>c. papers_of_moderator c ''65A1B2C3D4E5F60718293A4A'') cloud_db1 =
     (Response 200 (PaperList [cloud_paper1]), cloud_db1)"
    by simp
  from other b have r3:
    "authenticate test_env (Some (Signed ''your-secret-key'' bob_claims))
       (\<lambda>c. papers_of_moderator c ''65a1b2c3d4e5f60718293a4a'') cloud_db1 =
     (Response 403 (Text ''Access denied.''), cloud_db1)"
    by simp
  from va vb a b c1 c2 r1 r2 r3 show ?thesis by blast
qed

text \<open>
  C9. Only the admin login mints an admin capability. A token issued by the moderator
  login carries claims without \<open>isAdmin\<close>, and with it every route that tests
  \<open>req.user.isAdmin\<close> answers 403 and changes nothing. The admin login issues a token
  exactly when the username is \<open>admin\<close> and the password is the configured
  \<open>ADMIN_PASSWORD\<close>, and that token carries \<open>isAdmin = true\<close>.
\<close>

theorem admin_capability_only_from_admin_login:
  "(moderator_login e un pw st = Response 200 (TokenUser t name) \<longrightarrow>
      (\<exists>c. jwt_verify t (secret e) = Some c \<and> isAdmin c = None) \<and>
      authenticate e (Some t) (\<lambda>c. create_moderator e nid c a b) sc =
        (Response 403 (Text ''Access denied.''), sc) \<and>
      authenticate e (Some t) list_moderators sc = (Response 403 (Text ''Access denied.''), sc) \<and>
      authenticate e (Some t) (\<lambda>c. delete_moderator c m) sc =
        (Response 403 (Text ''Access denied.''), sc) \<and>
      authenticate e (Some t) (\<lambda>c. create_paper_cloud ids c pb fs) sc =
        (Response 403 (Text ''Access denied.''), sc) \<and>
      authenticate e (Some t) (\<lambda>c. update_paper_cloud ids c i n fs) sc =
        (Response 403 (Text ''Access denied.''), sc) \<and>
      authenticate e (Some t) (\<lambda>c. delete_paper_cloud c i) sc =
        (Response 403 (Text ''Access denied.''), sc) \<and>
      authenticate e (Some t) (\<lambda>c. create_paper_disk ids c pb fs) sd =
        (Response 403 (Text ''Access denied.''), sd) \<and>
      authenticate e (Some t) (\<lambda>c. update_paper_disk ids c i n fs) sd =
        (Response 403 (Text ''Access denied.''), sd) \<and>
      authenticate e (Some t) (\<lambda>c. delete_file_disk c i f) sd =
        (Response 403 (Text ''Access denied.''), sd) \<and>
      authenticate e (Some t) (\<lambda>c. delete_paper_disk c i) sd =
        (Response 403 (Text ''Access denied.''), sd)) \<and>
   ((\<exists>t'. admin_login e un pw = Response 200 (TokenOnly t')) =
      (un = Some ''admin'' \<and> pw = ADMIN_PASSWORD e)) \<and>
   (admin_login e un pw = Response 200 (TokenOnly t) \<longrightarrow>
      jwt_verify t (secret e) =
        Some \<lparr>claim_id = ''admin'', isAdmin = Some True, claim_username = None\<rparr>)"
proof (intro conjI impI)
  assume login: "moderator_login e un pw st = Response 200 (TokenUser t name)"
  from moderator_login_token [OF login] obtain mo :: user where
    t: "t = jwt_sign \<lparr>claim_id = user_id mo, isAdmin = None,
                      claim_username = Some (username mo)\<rparr> (secret e)" ..
  let ?c = "\<lparr>claim_id = user_id mo, isAdmin = None, claim_username = Some (username mo)\<rparr>"
  have v: "jwt_verify t (secret e) = Some ?c"
    by (simp only: t jwt_verify_sign)
  have na: "\<not> truthy (isAdmin ?c)"
    by (simp add: truthy_def)
  show "\<exists>c. jwt_verify t (secret e) = Some c \<and> isAdmin c = None"
    using v by simp
  note deny = guarded_routes_deny [OF na]
  show "authenticate e (Some t) (\<lambda>c. create_moderator e nid c a b) sc =
        (Response 403 (Text ''Access denied.''), sc)"
    by (simp only: authenticate_verified [OF v] deny)
  show "authenticate e (Some t) list_moderators sc = (Response 403 (Text ''Access denied.''), sc)"
    by (simp only: authenticate_verified [OF v] deny)
  show "authenticate e (Some t) (\<lambda>c. delete_moderator c m) sc =
        (Response 403 (Text ''Access denied.''), sc)"
    by (simp only: authenticate_verified [OF v] deny)
  show "authenticate e (Some t) (\<lambda>c. create_paper_cloud ids c pb fs) sc =
        (Response 403 (Text ''Access denied.''), sc)"
    by (simp only: authenticate_verified [OF v] deny)
  show "authenticate e (Some t) (\<lambda>c. update_paper_cloud ids c i n fs) sc =
        (Response 403 (Text ''Access denied.''), sc)"
    by (simp only: authenticate_verified [OF v] deny)
  show "authenticate e (Some t) (\<lambda>c. delete_paper_cloud c i) sc =
        (Response 403 (Text ''Access denied.''), sc)"
    by (simp only: authenticate_verified [OF v] deny)
  show "authenticate e (Some t) (\<lambda>c. create_paper_disk ids c pb fs) sd =
        (Response 403 (Text ''Access denied.''), sd)"
    by (simp only: authenticate_verified [OF v] deny)
  show "authenticate e (Some t) (\<lambda>c. update_paper_disk ids c i n fs) sd =
        (Response 403 (Text ''Access denied.''), sd)"
    by (simp only: authenticate_verified [OF v] deny)
  show "authenticate e (Some t) (\<lambda>c. delete_file_disk c i f) sd =
        (Response 403 (Text ''Access denied.''), sd)"
    by (simp only: authenticate_verified [OF v] deny)
  show "authenticate e (Some t) (\<lambda>c. delete_paper_disk c i) sd =
        (Response 403 (Text ''Access denied.''), sd)"
    by (simp only: authenticate_verified [OF v] deny)
next
  show "(\<exists>t'. admin_login e un pw = Response 200 (TokenOnly t')) =
      (un = Some ''admin'' \<and> pw = ADMIN_PASSWORD e)"
    by (auto simp: admin_login_def)
next
  assume "admin_login e un pw = Response 200 (TokenOnly t)"
  then show "jwt_verify t (secret e) =
        Some \<lparr>claim_id = ''admin'', isAdmin = Some True, claim_username = None\<rparr>"
    by (auto simp: admin_login_def jwt_sign_def split: if_splits)
qed

theorem admin_capability_only_from_admin_login_witness:
  "moderator_login test_env (Some ''bob'') (Some ''builder'') cloud_db1 =
     Response 200 (TokenUser (Signed ''your-secret-key'' bob_claims) ''bob'') \<and>
   authenticate test_env (Some (Signed ''your-secret-key'' bob_claims))
       (\<lambda>c. delete_paper_cloud c ''65a1b2c3d4e5f60718293b01'') cloud_db1 =
     (Response 403 (Text ''Access denied.''), cloud_db1) \<and>
   authenticate test_env (Some (Signed ''your-secret-key'' bob_claims))
       (\<lambda>c. create_moderator test_env ''65a1b2c3d4e5f60718293d00'' c (Some ''eve'') (Some ''pw''))
       cloud_db1 =
     (Response 403 (Text ''Access denied.''), cloud_db1) \<and>
   (admin_login test_env (Some ''admin'') (Some ''s3cret'') :: cloud_file outcome) =
     Response 200 (TokenOnly (Signed ''your-secret-key'' admin_claims)) \<and>
   jwt_verify (Signed ''your-secret-key'' admin_claims) (secret test_env) = Some admin_claims"
proof -
  have l: "moderator_login test_env (Some ''bob'') (Some ''builder'') cloud_db1 =
     Response 200 (TokenUser (Signed ''your-secret-key'' bob_claims) ''bob'')"
    by (simp add: moderator_login_def jwt_sign_def secret_def test_defs)
  have a: "(admin_login test_env (Some ''admin'') (Some ''s3cret'') :: cloud_file outcome) =
     Response 200 (TokenOnly (Signed ''your-secret-key'' admin_claims))"
    by (simp add: admin_login_def jwt_sign_def secret_def test_defs)
  note moderator = admin_capability_only_from_admin_login
      [where e = test_env and un = "Some ''bob''" and pw = "Some ''builder''" and st = cloud_db1
         and t = "Signed ''your-secret-key'' bob_claims" and name = "''bob''" and sc = cloud_db1
         and i = "''65a1b2c3d4e5f60718293b01''" and nid = "''65a1b2c3d4e5f60718293d00''"
         and a = "Some ''eve''" and b = "Some ''pw''"]
  note admin = admin_capability_only_from_admin_login
      [where e = test_env and un = "Some ''admin''" and pw = "Some ''s3cret''"
         and t = "Signed ''your-secret-key'' admin_claims"]
  from moderator l have d:
    "authenticate test_env (Some (Signed ''your-secret-key'' bob_claims))
       (\<lambda>c. delete_paper_cloud c ''65a1b2c3d4e5f60718293b01'') cloud_db1 =
     (Response 403 (Text ''Access denied.''), cloud_db1) \<and>
     authenticate test_env (Some (Signed ''your-secret-key'' bob_claims))
       (\<lambda>c. create_moderator test_env ''65a1b2c3d4e5f60718293d00'' c (Some ''eve'') (Some ''pw''))
       cloud_db1 =
     (Response 403 (Text ''Access denied.''), cloud_db1)"
    by blast
  from admin a have v:
    "jwt_verify (Signed ''your-secret-key'' admin_claims) (secret test_env) = Some admin_claims"
    unfolding admin_claims_def by blast
  from l d a v show ?thesis by blast
qed

section \<open>Attachments\<close>

text \<open>
  C4. On an existing paper, removing an attachment by an id that none of the paper's
  attachments has fails with 404 and leaves the stores, and so the paper's attachments,
  exactly as they were. In the Cloudinary variant the id of the request is cast, so it
  names no attachment when it does not cast or casts to an ObjectId that no attachment
  has, and this holds for every caller; the local-disk variant compares the string itself,
  for every caller that passes its admin test.
\<close>

theorem remove_missing_attachment_not_found:
  "(findById paperId (papers sc) = Inr (Some pc) \<and>
    set_option (castObjectId fileId) \<inter> cf_id ` set (files pc) = {} \<longrightarrow>
      delete_file_cloud u paperId fileId sc = (Response 404 (Text ''File not found.''), sc)) \<and>
   (findById paperId (papers sd) = Inr (Some pd) \<and> fileId \<notin> df_id ` set (files pd) \<and>
    truthy (isAdmin u) \<longrightarrow>
      delete_file_disk u paperId fileId sd = (Response 404 (Text ''File not found.''), sd))"
  by (simp add: delete_file_cloud_def delete_file_disk_def files_id_absent findIndex_absent)

theorem remove_missing_attachment_not_found_witness:
  "findById ''65a1b2c3d4e5f60718293b01'' (papers cloud_db1) = Inr (Some cloud_paper1) \<and>
   set_option (castObjectId ''65a1b2c3d4e5f60718293c09'') \<inter> cf_id ` set (files cloud_paper1) = {} \<and>
   delete_file_cloud bob_claims ''65a1b2c3d4e5f60718293b01'' ''65a1b2c3d4e5f60718293c09'' cloud_db1
     = (Response 404 (Text ''File not found.''), cloud_db1) \<and>
   set_option (castObjectId ''not-an-id'') \<inter> cf_id ` set (files cloud_paper1) = {} \<and>
   delete_file_cloud bob_claims ''65a1b2c3d4e5f60718293b01'' ''not-an-id'' cloud_db1
     = (Response 404 (Text ''File not found.''), cloud_db1) \<and>
   findById ''65a1b2c3d4e5f60718293b01'' (papers disk_db1) = Inr (Some disk_paper1) \<and>
   ''65a1b2c3d4e5f60718293c09'' \<notin> df_id ` set (files disk_paper1) \<and>
   truthy (isAdmin admin_claims) \<and>
   delete_file_disk admin_claims ''65a1b2c3d4e5f60718293b01'' ''65a1b2c3d4e5f60718293c09'' disk_db1
     = (Response 404 (Text ''File not found.''), disk_db1)"
proof -
  have c: "findById ''65a1b2c3d4e5f60718293b01'' (papers cloud_db1) = Inr (Some cloud_paper1)"
    by (simp add: findById_def cast_examples test_defs)
  have d: "findById ''65a1b2c3d4e5f60718293b01'' (papers disk_db1) = Inr (Some disk_paper1)"
    by (simp add: findById_def cast_examples test_defs)
  have fc: "set_option (castObjectId ''65a1b2c3d4e5f60718293c09'') \<inter> cf_id ` set (files cloud_paper1) = {}"
    by (simp add: cast_examples test_defs)
  have fn: "set_option (castObjectId ''not-an-id'') \<inter> cf_id ` set (files cloud_paper1) = {}"
    by (simp add: cast_examples)
  have fd: "''65a1b2c3d4e5f60718293c09'' \<notin> df_id ` set (files disk_paper1)"
    by (simp add: test_defs)
  have a: "truthy (isAdmin admin_claims)"
    by (simp add: truthy_def admin_claims_def)
  show ?thesis
    using remove_missing_attachment_not_found
      [where paperId = "''65a1b2c3d4e5f60718293b01''" and sc = cloud_db1 and pc = cloud_paper1
         and fileId = "''65a1b2c3d4e5f60718293c09''" and sd = disk_db1 and pd = disk_paper1
         and u = admin_claims]
      remove_missing_attachment_not_found
      [where paperId = "''65a1b2c3d4e5f60718293b01''" and sc = cloud_db1 and pc = cloud_paper1
         and fileId = "''65a1b2c3d4e5f60718293c09''" and u = bob_claims]
      remove_missing_attachment_not_found
      [where paperId = "''65a1b2c3d4e5f60718293b01''" and sc = cloud_db1 and pc = cloud_paper1
         and fileId = "''not-an-id''" and u = bob_claims]
      c d fc fn fd a
    by blast
qed

text \<open>
  C7. Appending attachments keeps the order and the attachments already there. A
  successful \<open>PUT /api/papers/:id\<close> with a batch of uploaded files saves the paper
  with its former attachments followed by the batch in the order of arrival; and the
  request of an admin on an existing valid paper, with files that have a path and a
  name and a note of at most 500 characters, does succeed. So uploading a and b and then
  c yields a, b, c, in both variants.
\<close>

theorem update_paper_appends_in_order:
  "(findById i (papers sc) = Inr (Some pc) \<and>
    update_paper_cloud ids u i n (Some batch) sc = (Response 200 (PaperDoc pc'), sc') \<longrightarrow>
      files pc' = files pc @ cloud_files ids 0 batch \<and>
      map public_id (files pc') = map public_id (files pc) @ map up_filename batch \<and>
      findById i (papers sc') = Inr (Some pc')) \<and>
   (truthy (isAdmin u) \<and> findById i (papers sc) = Inr (Some pc) \<and>
    valid_paper valid_cloud_file pc \<and> list_all valid_cloud_file (cloud_files ids 0 batch) \<and>
    maxlength 500 n \<longrightarrow>
      (\<exists>p s. update_paper_cloud ids u i n (Some batch) sc = (Response 200 (PaperDoc p), s) \<and>
             files p = files pc @ cloud_files ids 0 batch \<and>
             findById i (papers s) = Inr (Some p))) \<and>
   (findById i (papers sd) = Inr (Some pd) \<and>
    update_paper_disk ids u i n (Some batch) sd = (Response 200 (PaperDoc pd'), sd') \<longrightarrow>
      files pd' = files pd @ disk_files ids (clock sd) 0 batch \<and>
      map path (files pd') = map path (files pd) @ map up_path batch \<and>
      findById i (papers sd') = Inr (Some pd')) \<and>
   (truthy (isAdmin u) \<and> findById i (papers sd) = Inr (Some pd) \<and>
    valid_paper valid_disk_file pd \<and>
    list_all valid_disk_file (disk_files ids (clock sd) 0 batch) \<and> maxlength 500 n \<longrightarrow>
      (\<exists>p s. update_paper_disk ids u i n (Some batch) sd = (Response 200 (PaperDoc p), s) \<and>
             files p = files pd @ disk_files ids (clock sd) 0 batch \<and>
             findById i (papers s) = Inr (Some p)))"
proof -
  have cloud: "files p = files pc @ cloud_files ids 0 batch \<and>
      map public_id (files p) = map public_id (files pc) @ map up_filename batch \<and>
      findById i (papers s) = Inr (Some p)"
    if found: "findById i (papers sc) = Inr (Some pc)"
      and run: "update_paper_cloud ids u i n (Some batch) sc = (Response 200 (PaperDoc p), s)"
    for p s
  proof -
    from update_paper_cloud_ok [OF found run]
    have p: "p = pc\<lparr>p_note := (if note_given n then n else p_note pc),
                files := files pc @ cloud_files ids 0 batch, updatedAt := clock sc\<rparr>"
      and st: "s = sc\<lparr>papers := map (\<lambda>q. if paper_id q = paper_id p then p else q) (papers sc)\<rparr>"
      by auto
    have pid: "paper_id p = paper_id pc"
      by (subst p) simp
    have f: "files p = files pc @ cloud_files ids 0 batch"
      by (subst p) simp
    have "findById i (papers s) = Inr (Some p)"
      using findById_replace [OF found pid] by (subst st) simp
    with f show ?thesis
      by (simp add: cloud_files_arrival)
  qed
  have disk: "files p = files pd @ disk_files ids (clock sd) 0 batch \<and>
      map path (files p) = map path (files pd) @ map up_path batch \<and>
      findById i (papers s) = Inr (Some p)"
    if found: "findById i (papers sd) = Inr (Some pd)"
      and run: "update_paper_disk ids u i n (Some batch) sd = (Response 200 (PaperDoc p), s)"
    for p s
  proof -
    from update_paper_disk_ok [OF found run]
    have p: "p = pd\<lparr>p_note := (if note_given n then n else p_note pd),
                files := files pd @ disk_files ids (clock sd) 0 batch, updatedAt := clock sd\<rparr>"
      and st: "s = sd\<lparr>papers := map (\<lambda>q. if paper_id q = paper_id p then p else q) (papers sd)\<rparr>"
      by auto
    have pid: "paper_id p = paper_id pd"
      by (subst p) simp
    have f: "files p = files pd @ disk_files ids (clock sd) 0 batch"
      by (subst p) simp
    have "findById i (papers s) = Inr (Some p)"
      using findById_replace [OF found pid] by (subst st) simp
    with f show ?thesis
      by (simp add: disk_files_arrival)
  qed
  show ?thesis
  proof (intro conjI impI)
    assume a: "truthy (isAdmin u) \<and> findById i (papers sc) = Inr (Some pc) \<and>
      valid_paper valid_cloud_file pc \<and> list_all valid_cloud_file (cloud_files ids 0 batch) \<and>
      maxlength 500 n"
    then have found: "findById i (papers sc) = Inr (Some pc)" by simp
    from a update_paper_cloud_succeeds [of u i sc pc ids batch n]
    obtain p s where run: "update_paper_cloud ids u i n (Some batch) sc = (Response 200 (PaperDoc p), s)"
      by blast
    with cloud [OF found run]
    show "\<exists>p s. update_paper_cloud ids u i n (Some batch) sc = (Response 200 (PaperDoc p), s) \<and>
             files p = files pc @ cloud_files ids 0 batch \<and>
             findById i (papers s) = Inr (Some p)"
      by blast
  next
    assume a: "truthy (isAdmin u) \<and> findById i (papers sd) = Inr (Some pd) \<and>
      valid_paper valid_disk_file pd \<and>
      list_all valid_disk_file (disk_files ids (clock sd) 0 batch) \<and> maxlength 500 n"
    then have found: "findById i (papers sd) = Inr (Some pd)" by simp
    from a update_paper_disk_succeeds [of u i sd pd ids batch n]
    obtain p s where run: "update_paper_disk ids u i n (Some batch) sd = (Response 200 (PaperDoc p), s)"
      by blast
    with disk [OF found run]
    show "\<exists>p s. update_paper_disk ids u i n (Some batch) sd = (Response 200 (PaperDoc p), s) \<and>
             files p = files pd @ disk_files ids (clock sd) 0 batch \<and>
             findById i (papers s) = Inr (Some p)"
      by blast
  qed (use cloud disk in blast)+
qed

theorem update_paper_appends_in_order_witness:
  "truthy (isAdmin admin_claims) \<and> maxlength 500 None \<and>
   valid_paper valid_cloud_file cloud_paper0 \<and>
   list_all valid_cloud_file (cloud_files test_ids 0 [cloud_upload_a, cloud_upload_b]) \<and>
   valid_paper valid_disk_file disk_paper0 \<and>
   list_all valid_disk_file (disk_files test_ids (clock disk_db0) 0 [upload_a, upload_b]) \<and>
   findById ''65a1b2c3d4e5f60718293b01'' (papers cloud_db0) = Inr (Some cloud_paper0) \<and>
   files cloud_paper0 = [] \<and>
   update_paper_cloud test_ids admin_claims ''65a1b2c3d4e5f60718293b01'' None
       (Some [cloud_upload_a, cloud_upload_b]) cloud_db0 =
     (Response 200 (PaperDoc cloud_paper_ab), cloud_db0\<lparr>papers := [cloud_paper_ab]\<rparr>) \<and>
   files cloud_paper_ab = [cloud_file_a, cloud_file_b] \<and>
   update_paper_cloud (\<lambda>k. test_ids (k + 2)) admin_claims ''65a1b2c3d4e5f60718293b01'' None
       (Some [cloud_upload_c]) (cloud_db0\<lparr>papers := [cloud_paper_ab], clock := 300\<rparr>) =
     (Response 200 (PaperDoc cloud_paper_abc),
      cloud_db0\<lparr>papers := [cloud_paper_abc], clock := 300\<rparr>) \<and>
   files cloud_paper_abc = [cloud_file_a, cloud_file_b, cloud_file_c] \<and>
   map cf_originalName (files cloud_paper_abc) = [''a.pdf'', ''b.pdf'', ''c.png''] \<and>
   findById ''65a1b2c3d4e5f60718293b01'' (papers disk_db0) = Inr (Some disk_paper0) \<and>
   files disk_paper0 = [] \<and>
   update_paper_disk test_ids admin_claims ''65a1b2c3d4e5f60718293b01'' None
       (Some [upload_a, upload_b]) disk_db0 =
     (Response 200 (PaperDoc disk_paper_ab), disk_db0\<lparr>papers := [disk_paper_ab]\<rparr>) \<and>
   files disk_paper_ab = [disk_file_a, disk_file_b] \<and>
   update_paper_disk (\<lambda>k. test_ids (k + 2)) admin_claims ''65a1b2c3d4e5f60718293b01'' None
       (Some [upload_c]) (disk_db0\<lparr>papers := [disk_paper_ab], clock := 300\<rparr>) =
     (Response 200 (PaperDoc disk_paper_abc),
      disk_db0\<lparr>papers := [disk_paper_abc], clock := 300\<rparr>) \<and>
   files disk_paper_abc = [disk_file_a, disk_file_b, disk_file_c] \<and>
   map df_originalName (files disk_paper_abc) = [''a.pdf'', ''b.pdf'', ''c.png'']"
proof -
  let ?i = "''65a1b2c3d4e5f60718293b01''"
  let ?sc1 = "cloud_db0\<lparr>papers := [cloud_paper_ab], clock := 300\<rparr>"
  let ?sd1 = "disk_db0\<lparr>papers := [disk_paper_ab], clock := 300\<rparr>"
  have a: "truthy (isAdmin admin_claims)"
    by (simp add: truthy_def admin_claims_def)
  have c0: "findById ?i (papers cloud_db0) = Inr (Some cloud_paper0)"
    by (simp add: findById_def cast_examples test_defs)
  have c1: "findById ?i (papers ?sc1) = Inr (Some cloud_paper_ab)"
    by (simp add: findById_def cast_examples test_defs)
  have d0: "findById ?i (papers disk_db0) = Inr (Some disk_paper0)"
    by (simp add: findById_def cast_examples test_defs)
  have d1: "findById ?i (papers ?sd1) = Inr (Some disk_paper_ab)"
    by (simp add: findById_def cast_examples test_defs)
  have rc1: "update_paper_cloud test_ids admin_claims ?i None
       (Some [cloud_upload_a, cloud_upload_b]) cloud_db0 =
     (Response 200 (PaperDoc cloud_paper_ab), cloud_db0\<lparr>papers := [cloud_paper_ab]\<rparr>)"
    by (simp add: update_paper_cloud_def run_defs test_defs)
  have rc2: "update_paper_cloud (\<lambda>k. test_ids (k + 2)) admin_claims ?i None
       (Some [cloud_upload_c]) ?sc1 =
     (Response 200 (PaperDoc cloud_paper_abc), cloud_db0\<lparr>papers := [cloud_paper_abc], clock := 300\<rparr>)"
    by (simp add: update_paper_cloud_def run_defs test_defs)
  have rd1: "update_paper_disk test_ids admin_claims ?i None
       (Some [upload_a, upload_b]) disk_db0 =
     (Response 200 (PaperDoc disk_paper_ab), disk_db0\<lparr>papers := [disk_paper_ab]\<rparr>)"
    by (simp add: update_paper_disk_def run_defs test_defs)
  have rd2: "update_paper_disk (\<lambda>k. test_ids (k + 2)) admin_claims ?i None
       (Some [upload_c]) ?sd1 =
     (Response 200 (PaperDoc disk_paper_abc), disk_db0\<lparr>papers := [disk_paper_abc], clock := 300\<rparr>)"
    by (simp add: update_paper_disk_def run_defs test_defs)
  have new_c: "cloud_files (\<lambda>k. test_ids (k + 2)) 0 [cloud_upload_c] = [cloud_file_c]"
    by (simp add: test_ids_def test_defs)
  have new_d: "disk_files (\<lambda>k. test_ids (k + 2)) (clock ?sd1) 0 [upload_c] = [disk_file_c]"
    by (simp add: test_ids_def test_defs)
  have fc0: "files cloud_paper0 = []" and fc1: "files cloud_paper_ab = [cloud_file_a, cloud_file_b]"
    and fd0: "files disk_paper0 = []" and fd1: "files disk_paper_ab = [disk_file_a, disk_file_b]"
    by (simp_all add: cloud_paper0_def cloud_paper_ab_def disk_paper0_def disk_paper_ab_def)
  note step = update_paper_appends_in_order
      [where i = ?i and u = admin_claims and n = None and ids = "\<lambda>k. test_ids (k + 2)"
         and sc = ?sc1 and pc = cloud_paper_ab and pc' = cloud_paper_abc
         and sc' = "cloud_db0\<lparr>papers := [cloud_paper_abc], clock := 300\<rparr>"
         and sd = ?sd1 and pd = disk_paper_ab and pd' = disk_paper_abc
         and sd' = "disk_db0\<lparr>papers := [disk_paper_abc], clock := 300\<rparr>"
         and batch = "[cloud_upload_c]"]
  note step_disk = update_paper_appends_in_order
      [where i = ?i and u = admin_claims and n = None and ids = "\<lambda>k. test_ids (k + 2)"
         and sd = ?sd1 and pd = disk_paper_ab and pd' = disk_paper_abc
         and sd' = "disk_db0\<lparr>papers := [disk_paper_abc], clock := 300\<rparr>"
         and batch = "[upload_c]"]
  from step c1 rc2 have "files cloud_paper_abc =
      files cloud_paper_ab @ cloud_files (\<lambda>k. test_ids (k + 2)) 0 [cloud_upload_c]"
    by blast
  then have fc2: "files cloud_paper_abc = [cloud_file_a, cloud_file_b, cloud_file_c]"
    by (simp only: fc1 new_c append.simps)
  from step_disk d1 rd2 have "files disk_paper_abc =
      files disk_paper_ab @ disk_files (\<lambda>k. test_ids (k + 2)) (clock ?sd1) 0 [upload_c]"
    by blast
  then have fd2: "files disk_paper_abc = [disk_file_a, disk_file_b, disk_file_c]"
    by (simp only: fd1 new_d append.simps)
  have nc: "map cf_originalName (files cloud_paper_abc) = [''a.pdf'', ''b.pdf'', ''c.png'']"
    by (simp add: fc2 cloud_file_a_def cloud_file_b_def cloud_file_c_def)
  have nd: "map df_originalName (files disk_paper_abc) = [''a.pdf'', ''b.pdf'', ''c.png'']"
    by (simp add: fd2 disk_file_a_def disk_file_b_def disk_file_c_def)
  have m: "maxlength 500 None"
    by (simp add: maxlength_def)
  have vc: "valid_paper valid_cloud_file cloud_paper0"
    by (simp add: valid_paper_def required_string_def maxlength_def test_defs)
  have vd: "valid_paper valid_disk_file disk_paper0"
    by (simp add: valid_paper_def required_string_def maxlength_def test_defs)
  have uc: "list_all valid_cloud_file (cloud_files test_ids 0 [cloud_upload_a, cloud_upload_b])"
    by (simp add: valid_cloud_file_def test_defs)
  have ud: "list_all valid_disk_file (disk_files test_ids (clock disk_db0) 0 [upload_a, upload_b])"
    by (simp add: valid_disk_file_def test_defs)
  note first_cloud = update_paper_appends_in_order
      [where i = ?i and u = admin_claims and n = None and ids = test_ids
         and sc = cloud_db0 and pc = cloud_paper0 and batch = "[cloud_upload_a, cloud_upload_b]"]
  note first_disk = update_paper_appends_in_order
      [where i = ?i and u = admin_claims and n = None and ids = test_ids
         and sd = disk_db0 and pd = disk_paper0 and batch = "[upload_a, upload_b]"]
  from first_cloud a c0 vc uc m
  have "\<exists>p s. update_paper_cloud test_ids admin_claims ?i None
           (Some [cloud_upload_a, cloud_upload_b]) cloud_db0 = (Response 200 (PaperDoc p), s)"
    by blast
  moreover from first_disk a d0 vd ud m
  have "\<exists>p s. update_paper_disk test_ids admin_claims ?i None
           (Some [upload_a, upload_b]) disk_db0 = (Response 200 (PaperDoc p), s)"
    by blast
  ultimately show ?thesis
    using a m vc uc vd ud c0 fc0 rc1 fc1 rc2 fc2 nc d0 fd0 rd1 fd1 rd2 fd2 nd
    by blast
qed

text \<open>
  C10. \<open>PUT /api/papers/:id\<close> on an existing paper never changes \<open>moderatorId\<close>,
  \<open>title\<close>, \<open>createdAt\<close> or the attachments already there, whatever the outcome,
  and leaves the note as it was when the note of the request is missing or the empty
  string. With such a note the request of an admin on an existing valid paper, with
  files that have a path and a name, succeeds: the saved paper is the old one with the
  uploaded files appended and \<open>updatedAt\<close> set to the current time.
\<close>

theorem update_paper_frame:
  "(findById i (papers sc) = Inr (Some pc) \<longrightarrow>
      (\<exists>pc'. findById i (papers (snd (update_paper_cloud ids u i n fs sc))) = Inr (Some pc') \<and>
         moderatorId pc' = moderatorId pc \<and> title pc' = title pc \<and>
         createdAt pc' = createdAt pc \<and>
         take (length (files pc)) (files pc') = files pc \<and>
         (n = None \<or> n = Some [] \<longrightarrow> p_note pc' = p_note pc) \<and>
         (\<forall>q. fst (update_paper_cloud ids u i n fs sc) = Response 200 (PaperDoc q) \<longrightarrow>
            q = pc' \<and> updatedAt pc' = clock sc \<and>
            (\<forall>batch. fs = Some batch \<longrightarrow> files pc' = files pc @ cloud_files ids 0 batch)))) \<and>
   (truthy (isAdmin u) \<and> findById i (papers sc) = Inr (Some pc) \<and>
    valid_paper valid_cloud_file pc \<and> list_all valid_cloud_file (cloud_files ids 0 batch) \<and>
    (n = None \<or> n = Some []) \<longrightarrow>
      update_paper_cloud ids u i n (Some batch) sc =
        (Response 200 (PaperDoc
           (pc\<lparr>files := files pc @ cloud_files ids 0 batch, updatedAt := clock sc\<rparr>)),
         sc\<lparr>papers := map (\<lambda>q. if paper_id q = paper_id pc
                                 then pc\<lparr>files := files pc @ cloud_files ids 0 batch,
                                        updatedAt := clock sc\<rparr>
                                 else q) (papers sc)\<rparr>)) \<and>
   (findById i (papers sd) = Inr (Some pd) \<longrightarrow>
      (\<exists>pd'. findById i (papers (snd (update_paper_disk ids u i n fs sd))) = Inr (Some pd') \<and>
         moderatorId pd' = moderatorId pd \<and> title pd' = title pd \<and>
         createdAt pd' = createdAt pd \<and>
         take (length (files pd)) (files pd') = files pd \<and>
         (n = None \<or> n = Some [] \<longrightarrow> p_note pd' = p_note pd) \<and>
         (\<forall>q. fst (update_paper_disk ids u i n fs sd) = Response 200 (PaperDoc q) \<longrightarrow>
            q = pd' \<and> updatedAt pd' = clock sd \<and>
            (\<forall>batch. fs = Some batch \<longrightarrow>
               files pd' = files pd @ disk_files ids (clock sd) 0 batch)))) \<and>
   (truthy (isAdmin u) \<and> findById i (papers sd) = Inr (Some pd) \<and>
    valid_paper valid_disk_file pd \<and>
    list_all valid_disk_file (disk_files ids (clock sd) 0 batch) \<and>
    (n = None \<or> n = Some []) \<longrightarrow>
      update_paper_disk ids u i n (Some batch) sd =
        (Response 200 (PaperDoc
           (pd\<lparr>files := files pd @ disk_files ids (clock sd) 0 batch, updatedAt := clock sd\<rparr>)),
         sd\<lparr>papers := map (\<lambda>q. if paper_id q = paper_id pd
                                 then pd\<lparr>files := files pd @ disk_files ids (clock sd) 0 batch,
                                        updatedAt := clock sd\<rparr>
                                 else q) (papers sd)\<rparr>))"
proof (intro conjI impI)
  assume found: "findById i (papers sc) = Inr (Some pc)"
  let ?r = "update_paper_cloud ids u i n fs sc"
  let ?goal = "\<lambda>pc'. findById i (papers (snd ?r)) = Inr (Some pc') \<and>
         moderatorId pc' = moderatorId pc \<and> title pc' = title pc \<and>
         createdAt pc' = createdAt pc \<and>
         take (length (files pc)) (files pc') = files pc \<and>
         (n = None \<or> n = Some [] \<longrightarrow> p_note pc' = p_note pc) \<and>
         (\<forall>q. fst ?r = Response 200 (PaperDoc q) \<longrightarrow>
            q = pc' \<and> updatedAt pc' = clock sc \<and>
            (\<forall>batch. fs = Some batch \<longrightarrow> files pc' = files pc @ cloud_files ids 0 batch))"
  show "\<exists>pc'. ?goal pc'"
  proof (cases "\<exists>q. fst ?r = Response 200 (PaperDoc q)")
    case False
    then have "snd ?r = sc"
      by (intro update_paper_cloud_failed) simp
    with False found have "?goal pc" by simp
    then show ?thesis ..
  next
    case True
    then obtain q where q: "fst ?r = Response 200 (PaperDoc q)" ..
    then have run: "?r = (Response 200 (PaperDoc q), snd ?r)"
      by (metis prod.collapse)
    from update_paper_cloud_ok [OF found run] obtain batch where
      fs: "fs = Some batch" and
      p: "q = pc\<lparr>p_note := (if note_given n then n else p_note pc),
              files := files pc @ cloud_files ids 0 batch, updatedAt := clock sc\<rparr>" and
      st: "snd ?r = sc\<lparr>papers := map (\<lambda>x. if paper_id x = paper_id q then q else x) (papers sc)\<rparr>"
      by auto
    have pid: "paper_id q = paper_id pc"
      by (subst p) simp
    have "findById i (papers (snd ?r)) = Inr (Some q)"
      using findById_replace [OF found pid] by (subst st) simp
    moreover have "moderatorId q = moderatorId pc \<and> title q = title pc \<and>
         createdAt q = createdAt pc \<and> take (length (files pc)) (files q) = files pc \<and>
         updatedAt q = clock sc \<and> files q = files pc @ cloud_files ids 0 batch"
      by (subst p)+ simp
    moreover have "n = None \<or> n = Some [] \<longrightarrow> p_note q = p_note pc"
      by (subst p) (auto simp: note_given_iff)
    ultimately have "?goal q"
      using q fs by simp
    then show ?thesis ..
  qed
next
  assume a: "truthy (isAdmin u) \<and> findById i (papers sc) = Inr (Some pc) \<and>
    valid_paper valid_cloud_file pc \<and> list_all valid_cloud_file (cloud_files ids 0 batch) \<and>
    (n = None \<or> n = Some [])"
  then have n: "\<not> note_given n" and m: "maxlength 500 n"
    by (auto simp: note_given_iff maxlength_def)
  from a m update_paper_cloud_succeeds [of u i sc pc ids batch n]
  show "update_paper_cloud ids u i n (Some batch) sc =
        (Response 200 (PaperDoc
           (pc\<lparr>files := files pc @ cloud_files ids 0 batch, updatedAt := clock sc\<rparr>)),
         sc\<lparr>papers := map (\<lambda>q. if paper_id q = paper_id pc
                                 then pc\<lparr>files := files pc @ cloud_files ids 0 batch,
                                        updatedAt := clock sc\<rparr>
                                 else q) (papers sc)\<rparr>)"
    by (simp add: n)
next
  assume found: "findById i (papers sd) = Inr (Some pd)"
  let ?r = "update_paper_disk ids u i n fs sd"
  let ?goal = "\<lambda>pd'. findById i (papers (snd ?r)) = Inr (Some pd') \<and>
         moderatorId pd' = moderatorId pd \<and> title pd' = title pd \<and>
         createdAt pd' = createdAt pd \<and>
         take (length (files pd)) (files pd') = files pd \<and>
         (n = None \<or> n = Some [] \<longrightarrow> p_note pd' = p_note pd) \<and>
         (\<forall>q. fst ?r = Response 200 (PaperDoc q) \<longrightarrow>
            q = pd' \<and> updatedAt pd' = clock sd \<and>
            (\<forall>batch. fs = Some batch \<longrightarrow>
               files pd' = files pd @ disk_files ids (clock sd) 0 batch))"
  show "\<exists>pd'. ?goal pd'"
  proof (cases "\<exists>q. fst ?r = Response 200 (PaperDoc q)")
    case False
    then have "snd ?r = sd"
      by (intro update_paper_disk_failed) simp
    with False found have "?goal pd" by simp
    then show ?thesis ..
  next
    case True
    then obtain q where q: "fst ?r = Response 200 (PaperDoc q)" ..
    then have run: "?r = (Response 200 (PaperDoc q), snd ?r)"
      by (metis prod.collapse)
    from update_paper_disk_ok [OF found run] have
      p: "q = pd\<lparr>p_note := (if note_given n then n else p_note pd),
              files := files pd @ (case fs of None \<Rightarrow> []
                                   | Some batch \<Rightarrow> disk_files ids (clock sd) 0 batch),
              updatedAt := clock sd\<rparr>" and
      st: "snd ?r = sd\<lparr>papers := map (\<lambda>x. if paper_id x = paper_id q then q else x) (papers sd)\<rparr>"
      by auto
    have pid: "paper_id q = paper_id pd"
      by (subst p) simp
    have "findById i (papers (snd ?r)) = Inr (Some q)"
      using findById_replace [OF found pid] by (subst st) simp
    moreover have "moderatorId q = moderatorId pd \<and> title q = title pd \<and>
         createdAt q = createdAt pd \<and> take (length (files pd)) (files q) = files pd \<and>
         updatedAt q = clock sd \<and>
         (\<forall>batch. fs = Some batch \<longrightarrow> files q = files pd @ disk_files ids (clock sd) 0 batch)"
      by (subst p)+ simp
    moreover have "n = None \<or> n = Some [] \<longrightarrow> p_note q = p_note pd"
      by (subst p) (auto simp: note_given_iff)
    ultimately have "?goal q"
      using q by simp
    then show ?thesis ..
  qed
next
  assume a: "truthy (isAdmin u) \<and> findById i (papers sd) = Inr (Some pd) \<and>
    valid_paper valid_disk_file pd \<and>
    list_all valid_disk_file (disk_files ids (clock sd) 0 batch) \<and>
    (n = None \<or> n = Some [])"
  then have n: "\<not> note_given n" and m: "maxlength 500 n"
    by (auto simp: note_given_iff maxlength_def)
  from a m update_paper_disk_succeeds [of u i sd pd ids batch n]
  show "update_paper_disk ids u i n (Some batch) sd =
        (Response 200 (PaperDoc
           (pd\<lparr>files := files pd @ disk_files ids (clock sd) 0 batch, updatedAt := clock sd\<rparr>)),
         sd\<lparr>papers := map (\<lambda>q. if paper_id q = paper_id pd
                                 then pd\<lparr>files := files pd @ disk_files ids (clock sd) 0 batch,
                                        updatedAt := clock sd\<rparr>
                                 else q) (papers sd)\<rparr>)"
    by (simp add: n)
qed

theorem update_paper_frame_witness:
  "truthy (isAdmin admin_claims) \<and>
   findById ''65a1b2c3d4e5f60718293b01'' (papers cloud_db1) = Inr (Some cloud_paper1) \<and>
   valid_paper valid_cloud_file cloud_paper1 \<and>
   list_all valid_cloud_file (cloud_files (\<lambda>k. test_ids (k + 2)) 0 [cloud_upload_c]) \<and>
   p_note cloud_paper1 = Some ''N'' \<and> updatedAt cloud_paper1 = 100 \<and> clock cloud_db1 = 200 \<and>
   update_paper_cloud (\<lambda>k. test_ids (k + 2)) admin_claims ''65a1b2c3d4e5f60718293b01'' (Some [])
       (Some [cloud_upload_c]) cloud_db1 =
     (Response 200 (PaperDoc
        (cloud_paper1\<lparr>files := [cloud_file1, cloud_file2, cloud_file_c], updatedAt := 200\<rparr>)),
      cloud_db1\<lparr>papers :=
        [cloud_paper1\<lparr>files := [cloud_file1, cloud_file2, cloud_file_c], updatedAt := 200\<rparr>]\<rparr>) \<and>
   p_note (cloud_paper1\<lparr>files := [cloud_file1, cloud_file2, cloud_file_c], updatedAt := 200\<rparr>) =
     Some ''N'' \<and>
   cf_originalName cloud_file_c = ''c.png'' \<and>
   findById ''65a1b2c3d4e5f60718293b01'' (papers (disk_db1\<lparr>clock := 300\<rparr>)) =
     Inr (Some disk_paper1) \<and>
   valid_paper valid_disk_file disk_paper1 \<and>
   list_all valid_disk_file (disk_files (\<lambda>k. test_ids (k + 2)) 300 0 [upload_c]) \<and>
   p_note disk_paper1 = Some ''N'' \<and> updatedAt disk_paper1 = 100 \<and>
   update_paper_disk (\<lambda>k. test_ids (k + 2)) admin_claims ''65a1b2c3d4e5f60718293b01'' None
       (Some [upload_c]) (disk_db1\<lparr>clock := 300\<rparr>) =
     (Response 200 (PaperDoc
        (disk_paper1\<lparr>files := [disk_file1, disk_file2, disk_file_c], updatedAt := 300\<rparr>)),
      disk_db1\<lparr>clock := 300,
        papers := [disk_paper1\<lparr>files := [disk_file1, disk_file2, disk_file_c],
                                updatedAt := 300\<rparr>]\<rparr>) \<and>
   p_note (disk_paper1\<lparr>files := [disk_file1, disk_file2, disk_file_c], updatedAt := 300\<rparr>) =
     Some ''N'' \<and>
   df_originalName disk_file_c = ''c.png''"
proof -
  let ?i = "''65a1b2c3d4e5f60718293b01''"
  let ?ids = "\<lambda>k. test_ids (k + 2)"
  let ?sd = "disk_db1\<lparr>clock := 300\<rparr>"
  have a: "truthy (isAdmin admin_claims)"
    by (simp add: truthy_def admin_claims_def)
  have fc: "findById ?i (papers cloud_db1) = Inr (Some cloud_paper1)"
    by (simp add: findById_def cast_examples test_defs)
  have fd: "findById ?i (papers ?sd) = Inr (Some disk_paper1)"
    by (simp add: findById_def cast_examples test_defs)
  have vc: "valid_paper valid_cloud_file cloud_paper1"
    by (simp add: valid_paper_def valid_cloud_file_def required_string_def maxlength_def test_defs)
  have vd: "valid_paper valid_disk_file disk_paper1"
    by (simp add: valid_paper_def valid_disk_file_def required_string_def maxlength_def test_defs)
  have new_c: "cloud_files ?ids 0 [cloud_upload_c] = [cloud_file_c]"
    by (simp add: test_ids_def test_defs)
  have new_d: "disk_files ?ids 300 0 [upload_c] = [disk_file_c]"
    by (simp add: test_ids_def test_defs)
  have uc: "list_all valid_cloud_file (cloud_files ?ids 0 [cloud_upload_c])"
    by (simp add: valid_cloud_file_def test_defs)
  have ud: "list_all valid_disk_file (disk_files ?ids 300 0 [upload_c])"
    by (simp add: valid_disk_file_def test_defs)
  have ud': "list_all valid_disk_file (disk_files ?ids (clock ?sd) 0 [upload_c])"
    using ud by simp
  have vals: "p_note cloud_paper1 = Some ''N'' \<and> updatedAt cloud_paper1 = 100 \<and>
      clock cloud_db1 = 200 \<and> p_note disk_paper1 = Some ''N'' \<and> updatedAt disk_paper1 = 100 \<and>
      cf_originalName cloud_file_c = ''c.png'' \<and> df_originalName disk_file_c = ''c.png''"
    by (simp add: test_defs)
  have shape: "files cloud_paper1 = [cloud_file1, cloud_file2] \<and>
      papers cloud_db1 = [cloud_paper1] \<and> files disk_paper1 = [disk_file1, disk_file2] \<and>
      papers ?sd = [disk_paper1] \<and> clock ?sd = 300"
    by (simp add: test_defs)
  note cloud = update_paper_frame
      [where i = ?i and u = admin_claims and n = "Some []" and ids = ?ids and sc = cloud_db1
         and pc = cloud_paper1 and batch = "[cloud_upload_c]"]
  note disk = update_paper_frame
      [where i = ?i and u = admin_claims and n = None and ids = ?ids and sd = ?sd
         and pd = disk_paper1 and batch = "[upload_c]"]
  from cloud a fc vc uc
  have "update_paper_cloud ?ids admin_claims ?i (Some []) (Some [cloud_upload_c]) cloud_db1 =
      (Response 200 (PaperDoc
         (cloud_paper1\<lparr>files := files cloud_paper1 @ cloud_files ?ids 0 [cloud_upload_c],
                       updatedAt := clock cloud_db1\<rparr>)),
       cloud_db1\<lparr>papers := map (\<lambda>q. if paper_id q = paper_id cloud_paper1
                    then cloud_paper1\<lparr>files := files cloud_paper1 @
                                                cloud_files ?ids 0 [cloud_upload_c],
                                      updatedAt := clock cloud_db1\<rparr>
                    else q) (papers cloud_db1)\<rparr>)"
    by blast
  then have rc: "update_paper_cloud ?ids admin_claims ?i (Some []) (Some [cloud_upload_c]) cloud_db1 =
     (Response 200 (PaperDoc
        (cloud_paper1\<lparr>files := [cloud_file1, cloud_file2, cloud_file_c], updatedAt := 200\<rparr>)),
      cloud_db1\<lparr>papers :=
        [cloud_paper1\<lparr>files := [cloud_file1, cloud_file2, cloud_file_c], updatedAt := 200\<rparr>]\<rparr>)"
    by (simp add: shape vals test_ids_def cloud_upload_c_def cloud_file_c_def)
  from disk a fd vd ud'
  have "update_paper_disk ?ids admin_claims ?i None (Some [upload_c]) ?sd =
      (Response 200 (PaperDoc
         (disk_paper1\<lparr>files := files disk_paper1 @ disk_files ?ids (clock ?sd) 0 [upload_c],
                      updatedAt := clock ?sd\<rparr>)),
       ?sd\<lparr>papers := map (\<lambda>q. if paper_id q = paper_id disk_paper1
                    then disk_paper1\<lparr>files := files disk_paper1 @
                                              disk_files ?ids (clock ?sd) 0 [upload_c],
                                     updatedAt := clock ?sd\<rparr>
                    else q) (papers ?sd)\<rparr>)"
    by blast
  then have rd: "update_paper_disk ?ids admin_claims ?i None (Some [upload_c]) ?sd =
     (Response 200 (PaperDoc
        (disk_paper1\<lparr>files := [disk_file1, disk_file2, disk_file_c], updatedAt := 300\<rparr>)),
      disk_db1\<lparr>clock := 300,
        papers := [disk_paper1\<lparr>files := [disk_file1, disk_file2, disk_file_c],
                                updatedAt := 300\<rparr>]\<rparr>)"
    by (simp add: shape test_ids_def upload_c_def disk_file_c_def)
  have nc: "p_note (cloud_paper1\<lparr>files := [cloud_file1, cloud_file2, cloud_file_c],
                                 updatedAt := 200\<rparr>) = Some ''N''"
    and nd: "p_note (disk_paper1\<lparr>files := [disk_file1, disk_file2, disk_file_c],
                                updatedAt := 300\<rparr>) = Some ''N''"
    by (simp_all add: vals)
  from a fc vc uc vals rc nc fd vd ud rd nd show ?thesis
    by blast
qed

section \<open>Timestamps\<close>

text \<open>
  C3. Every successful mutation of a paper refreshes \<open>updatedAt\<close>. The two handlers
  that remove an attachment never assign it: with the clock at 200, removing a file from
  a paper last updated at 100 succeeds in both variants and the saved paper still has
  \<open>updatedAt = 100\<close>.
\<close>

theorem delete_file_keeps_updatedAt:
  "clock cloud_db1 = 200 \<and> updatedAt cloud_paper1 = 100 \<and>
   delete_file_cloud admin_claims ''65a1b2c3d4e5f60718293b01'' ''65a1b2c3d4e5f60718293c01'' cloud_db1 =
     (Response 200 (Message ''File deleted successfully''),
      cloud_db1\<lparr>papers := [cloud_paper1\<lparr>files := [cloud_file2], updatedAt := 100\<rparr>],
                assets := [''event-papers/b'']\<rparr>) \<and>
   clock disk_db1 = 200 \<and> updatedAt disk_paper1 = 100 \<and>
   delete_file_disk admin_claims ''65a1b2c3d4e5f60718293b01'' ''65a1b2c3d4e5f60718293c01'' disk_db1 =
     (Response 200 (Message ''File deleted successfully''),
      disk_db1\<lparr>papers := [disk_paper1\<lparr>files := [disk_file2], updatedAt := 100\<rparr>]\<rparr>)"
  by (simp add: delete_file_cloud_def delete_file_disk_def findById_def files_id_def
      cast_examples destroy_def
      save_existing_def valid_paper_def valid_cloud_file_def valid_disk_file_def
      required_string_def maxlength_def splice1_def
      truthy_def access_denied_def test_defs)

section \<open>Creating a paper\<close>

text \<open>
  C2, as claimed: every paper that \<open>POST /api/papers\<close> creates names an existing
  identity, and a request whose \<open>moderatorId\<close> names none is rejected. It is not: the
  users are alice and bob, and the admin's request for a third id is answered with 200
  and the paper is stored.
\<close>

theorem create_paper_unknown_moderator:
  "map user_id (users cloud_db1) = [''65a1b2c3d4e5f60718293a4a'', ''65a1b2c3d4e5f60718293a4b''] \<and>
   create_paper_cloud test_ids admin_claims
       \<lparr>b_moderatorId = Some ''65a1b2c3d4e5f60718293aff'', b_title = Some ''T'', b_note = Some ''N''\<rparr>
       (Some []) cloud_db1 =
     (Response 200 (PaperDoc
        \<lparr>paper_id = ''65a1b2c3d4e5f60718293d00'', moderatorId = Some ''65a1b2c3d4e5f60718293aff'',
         title = Some ''T'', p_note = Some ''N'', files = [], createdAt = 200, updatedAt = 200\<rparr>),
      cloud_db1\<lparr>papers := [cloud_paper1,
        \<lparr>paper_id = ''65a1b2c3d4e5f60718293d00'', moderatorId = Some ''65a1b2c3d4e5f60718293aff'',
         title = Some ''T'', p_note = Some ''N'', files = [], createdAt = 200, updatedAt = 200\<rparr>]\<rparr>)"
  by (simp add: create_paper_cloud_def new_paper_def save_new_def valid_paper_def
      required_string_def maxlength_def truthy_def test_ids_def cast_examples Let_def test_defs)

text \<open>
  C2, amended. A successful \<open>POST /api/papers\<close> stores one new paper whose
  \<open>moderatorId\<close> is the ObjectId that the \<open>moderatorId\<close> of the request casts to,
  which is present; the handler never reads the users, so the same request succeeds with
  the same paper whatever users exist.
\<close>

theorem create_paper_owner_unchecked:
  "(create_paper_cloud ids u b fs sc = (Response 200 (PaperDoc pc), sc') \<longrightarrow>
      moderatorId pc = Option.bind (b_moderatorId b) castObjectId \<and> moderatorId pc \<noteq> None \<and>
      papers sc' = papers sc @ [pc] \<and>
      create_paper_cloud ids u b fs (sc\<lparr>users := us\<rparr>) =
        (Response 200 (PaperDoc pc), sc'\<lparr>users := us\<rparr>)) \<and>
   (create_paper_disk ids u b fs sd = (Response 200 (PaperDoc pd), sd') \<longrightarrow>
      moderatorId pd = Option.bind (b_moderatorId b) castObjectId \<and> moderatorId pd \<noteq> None \<and>
      papers sd' = papers sd @ [pd] \<and>
      create_paper_disk ids u b fs (sd\<lparr>users := us\<rparr>) =
        (Response 200 (PaperDoc pd), sd'\<lparr>users := us\<rparr>))"
  by (auto simp: create_paper_cloud_def create_paper_disk_def new_paper_def save_new_def
      valid_paper_def access_denied_def Let_def split: if_splits option.splits)

theorem create_paper_owner_unchecked_witness:
  "create_paper_disk test_ids admin_claims
       \<lparr>b_moderatorId = Some ''65a1b2c3d4e5f60718293aff'', b_title = Some ''T'', b_note = Some ''N''\<rparr>
       (Some []) disk_db1 =
     (Response 200 (PaperDoc
        \<lparr>paper_id = ''65a1b2c3d4e5f60718293d00'', moderatorId = Some ''65a1b2c3d4e5f60718293aff'',
         title = Some ''T'', p_note = Some ''N'', files = [], createdAt = 200, updatedAt = 200\<rparr>),
      disk_db1\<lparr>papers := [disk_paper1,
        \<lparr>paper_id = ''65a1b2c3d4e5f60718293d00'', moderatorId = Some ''65a1b2c3d4e5f60718293aff'',
         title = Some ''T'', p_note = Some ''N'', files = [], createdAt = 200, updatedAt = 200\<rparr>]\<rparr>) \<and>
   Option.bind (Some ''65a1b2c3d4e5f60718293aff'') castObjectId = Some ''65a1b2c3d4e5f60718293aff'' \<and>
   create_paper_disk test_ids admin_claims
       \<lparr>b_moderatorId = Some ''65a1b2c3d4e5f60718293aff'', b_title = Some ''T'', b_note = Some ''N''\<rparr>
       (Some []) (disk_db1\<lparr>users := []\<rparr>) =
     (Response 200 (PaperDoc
        \<lparr>paper_id = ''65a1b2c3d4e5f60718293d00'', moderatorId = Some ''65a1b2c3d4e5f60718293aff'',
         title = Some ''T'', p_note = Some ''N'', files = [], createdAt = 200, updatedAt = 200\<rparr>),
      disk_db1\<lparr>papers := [disk_paper1,
        \<lparr>paper_id = ''65a1b2c3d4e5f60718293d00'', moderatorId = Some ''65a1b2c3d4e5f60718293aff'',
         title = Some ''T'', p_note = Some ''N'', files = [], createdAt = 200, updatedAt = 200\<rparr>],
        users := []\<rparr>)"
proof -
  let ?b = "\<lparr>b_moderatorId = Some ''65a1b2c3d4e5f60718293aff'', b_title = Some ''T'',
             b_note = Some ''N''\<rparr>"
  let ?p = "\<lparr>paper_id = ''65a1b2c3d4e5f60718293d00'', moderatorId = Some ''65a1b2c3d4e5f60718293aff'',
         title = Some ''T'', p_note = Some ''N'', files = ([] :: disk_file list),
         createdAt = 200, updatedAt = 200\<rparr>"
  have ok: "create_paper_disk test_ids admin_claims ?b (Some []) disk_db1 =
      (Response 200 (PaperDoc ?p), disk_db1\<lparr>papers := [disk_paper1, ?p]\<rparr>)"
    by (simp add: create_paper_disk_def new_paper_def save_new_def valid_paper_def
      required_string_def maxlength_def truthy_def test_ids_def cast_examples Let_def test_defs)
  have c: "Option.bind (Some ''65a1b2c3d4e5f60718293aff'') castObjectId =
      Some ''65a1b2c3d4e5f60718293aff''"
    by (simp add: cast_examples)
  from create_paper_owner_unchecked
      [where ids = test_ids and u = admin_claims and b = ?b and fs = "Some []" and sd = disk_db1
         and pd = ?p and sd' = "disk_db1\<lparr>papers := [disk_paper1, ?p]\<rparr>" and us = "[]"] ok
  have "create_paper_disk test_ids admin_claims ?b (Some []) (disk_db1\<lparr>users := []\<rparr>) =
      (Response 200 (PaperDoc ?p), disk_db1\<lparr>papers := [disk_paper1, ?p], users := []\<rparr>)"
    by blast
  with ok c show ?thesis by blast
qed

text \<open>
  C8, as claimed: a title of more than 100 characters is reported to the caller as a
  400 response. The request of the admin, with a token that verifies and a title of 101
  characters, is not answered 400: \<open>save\<close> rejects and the rejection leaves the
  handler.
\<close>

theorem create_paper_too_long_uncaught:
  "jwt_verify (Signed ''your-secret-key'' admin_claims) (secret test_env) = Some admin_claims \<and>
   truthy (isAdmin admin_claims) \<and>
   authenticate test_env (Some (Signed ''your-secret-key'' admin_claims))
       (\<lambda>c. create_paper_cloud test_ids c
          \<lparr>b_moderatorId = Some ''65a1b2c3d4e5f60718293a4a'',
           b_title = Some (replicate 101 (CHR ''x'')), b_note = Some ''N''\<rparr>
          (Some [])) cloud_db1 =
     (Uncaught ValidationError, cloud_db1)"
  by (simp add: authenticate_def secret_def create_paper_cloud_def new_paper_def save_new_def
      valid_paper_def required_string_def maxlength_def truthy_def test_ids_def cast_examples
      Let_def test_defs)

text \<open>
  C8, amended. For a create-paper request from a caller whose token verifies, whose
  title exceeds 100 characters, whose note exceeds 500 characters, or which lacks
  \<open>moderatorId\<close>, title or note: saving the paper fails with a ValidationError, no
  paper is created, and the request is answered neither with success nor with 400.
\<close>

theorem create_paper_invalid_rejected:
  "jwt_verify t (secret e) = Some u \<Longrightarrow>
   (\<exists>s. b_title b = Some s \<and> 100 < length s) \<or> (\<exists>s. b_note b = Some s \<and> 500 < length s) \<or>
   b_moderatorId b = None \<or> b_title b = None \<or> b_note b = None \<Longrightarrow>
   save_new valid_cloud_file (new_paper i b cfs now) sc = Inl ValidationError \<and>
   papers (snd (authenticate e (Some t) (\<lambda>c. create_paper_cloud ids c b fs) sc)) = papers sc \<and>
   fst (authenticate e (Some t) (\<lambda>c. create_paper_cloud ids c b fs) sc) \<noteq> Response 200 ok \<and>
   fst (authenticate e (Some t) (\<lambda>c. create_paper_cloud ids c b fs) sc) \<noteq> Response 400 msg \<and>
   save_new valid_disk_file (new_paper i b dfs now) sd = Inl ValidationError \<and>
   papers (snd (authenticate e (Some t) (\<lambda>c. create_paper_disk ids c b fs) sd)) = papers sd \<and>
   fst (authenticate e (Some t) (\<lambda>c. create_paper_disk ids c b fs) sd) \<noteq> Response 200 ok' \<and>
   fst (authenticate e (Some t) (\<lambda>c. create_paper_disk ids c b fs) sd) \<noteq> Response 400 msg'"
proof -
  assume v: "jwt_verify t (secret e) = Some u"
  assume bad: "(\<exists>s. b_title b = Some s \<and> 100 < length s) \<or>
    (\<exists>s. b_note b = Some s \<and> 500 < length s) \<or>
    b_moderatorId b = None \<or> b_title b = None \<or> b_note b = None"
  have inv: "\<And>vf (fs :: 'x list). \<not> valid_paper vf (new_paper i' b fs now')" for i' now'
    using bad by (auto simp: valid_paper_def new_paper_def required_string_def maxlength_def)
  have sc: "save_new valid_cloud_file (new_paper i b cfs now) sc = Inl ValidationError"
    by (simp add: save_new_def inv)
  have sd: "save_new valid_disk_file (new_paper i b dfs now) sd = Inl ValidationError"
    by (simp add: save_new_def inv)
  have c: "create_paper_cloud ids u b fs sc \<in>
      {(access_denied, sc), (Uncaught TypeError, sc), (Uncaught ValidationError, sc)}"
    by (simp add: create_paper_cloud_def save_new_def inv Let_def split: option.splits)
  have d: "create_paper_disk ids u b fs sd \<in>
      {(access_denied, sd), (Uncaught TypeError, sd), (Uncaught ValidationError, sd)}"
    by (simp add: create_paper_disk_def save_new_def inv Let_def split: option.splits)
  show ?thesis
    using sc sd c d by (auto simp: authenticate_verified [OF v] access_denied_def)
qed

theorem create_paper_invalid_rejected_witness:
  "jwt_verify (Signed ''your-secret-key'' admin_claims) (secret test_env) = Some admin_claims \<and>
   100 < length (replicate 101 (CHR ''x'')) \<and>
   authenticate test_env (Some (Signed ''your-secret-key'' admin_claims))
       (\<lambda>c. create_paper_disk test_ids c
          \<lparr>b_moderatorId = Some ''65a1b2c3d4e5f60718293a4a'',
           b_title = Some (replicate 101 (CHR ''x'')), b_note = Some ''N''\<rparr>
          (Some [upload_a])) disk_db1 =
     (Uncaught ValidationError, disk_db1) \<and>
   papers (snd (authenticate test_env (Some (Signed ''your-secret-key'' admin_claims))
       (\<lambda>c. create_paper_disk test_ids c
          \<lparr>b_moderatorId = Some ''65a1b2c3d4e5f60718293a4a'',
           b_title = Some (replicate 101 (CHR ''x'')), b_note = Some ''N''\<rparr>
          (Some [upload_a])) disk_db1)) = [disk_paper1]"
proof -
  let ?b = "\<lparr>b_moderatorId = Some ''65a1b2c3d4e5f60718293a4a'',
        b_title = Some (replicate 101 (CHR ''x'')), b_note = Some ''N''\<rparr>"
  have v: "jwt_verify (Signed ''your-secret-key'' admin_claims) (secret test_env) = Some admin_claims"
    by (simp add: secret_def test_env_def)
  have h: "(\<exists>s. b_title ?b = Some s \<and> 100 < length s) \<or> (\<exists>s. b_note ?b = Some s \<and> 500 < length s) \<or>
   b_moderatorId ?b = None \<or> b_title ?b = None \<or> b_note ?b = None"
    by simp
  have r: "authenticate test_env (Some (Signed ''your-secret-key'' admin_claims))
       (\<lambda>c. create_paper_disk test_ids c ?b (Some [upload_a])) disk_db1 =
     (Uncaught ValidationError, disk_db1)"
    by (simp add: authenticate_def secret_def create_paper_disk_def new_paper_def save_new_def
      valid_paper_def required_string_def maxlength_def truthy_def test_ids_def cast_examples
      Let_def test_defs)
  have p: "papers disk_db1 = [disk_paper1]"
    by (simp add: disk_db1_def)
  show ?thesis
    using create_paper_invalid_rejected [OF v h, where ids = test_ids and sd = disk_db1
        and fs = "Some [upload_a]"] v r p
    by simp
qed

section \<open>Deleting a paper\<close>

text \<open>
  C5. In the cascade delete a failure to delete an attachment's blob is swallowed, and
  the removal of the paper still takes effect. The paper is removed, but the failure is
  not swallowed: while Cloudinary rejects the request for the first file, the admin's
  \<open>DELETE /api/papers/:id\<close> ends with the failure uncaught, no response is sent and
  the second file's asset is never asked for. The handler that deletes one file catches
  the same failure and answers 500.
\<close>

theorem delete_paper_blob_failure_uncaught:
  "delete_paper_cloud admin_claims ''65a1b2c3d4e5f60718293b01'' cloud_db_down =
     (Uncaught UpstreamFailure, cloud_db_down\<lparr>papers := []\<rparr>) \<and>
   assets (cloud_db_down\<lparr>papers := []\<rparr>) = [''event-papers/a'', ''event-papers/b''] \<and>
   delete_file_cloud admin_claims ''65a1b2c3d4e5f60718293b01'' ''65a1b2c3d4e5f60718293c01''
       cloud_db_down =
     (Response 500 (Text ''Error deleting file''), cloud_db_down)"
  by (simp add: delete_paper_cloud_def delete_file_cloud_def findById_def files_id_def
      cast_examples destroy_def truthy_def test_defs)

end
